theory Spec2Isabelle
  imports Main "HOL-Library.Word" "HOL-Library.Monad_Syntax"
begin

section \<open>Tokens, channels and parse errors\<close>

text \<open>
  The tag of a token (the field \<^verbatim>\<open>value\<close> of \<^verbatim>\<open>Lex\<close>). The constants \<^verbatim>\<open>_STRING\<close>,
  \<^verbatim>\<open>_BLANK\<close>, \<^verbatim>\<open>_NEWLINE\<close> and \<^verbatim>\<open>_EOF\<close> are declared outside \<^verbatim>\<open>zscan_rr.go\<close>; the
  \<^verbatim>\<open>default\<close> branches of the grammars show that the lexer has further tags, which
  are collected in \<open>OTHER\<close>.
\<close>

datatype lexvalue = STRING | BLANK | NEWLINE | EOF | OTHER nat

text \<open>\<^verbatim>\<open>Lex\<close>: the payload \<^verbatim>\<open>token\<close> and the tag \<^verbatim>\<open>value\<close> (written \<open>lvalue\<close>).\<close>

record Lex =
  token :: string
  lvalue :: lexvalue

text \<open>\<^verbatim>\<open>ParseError{err, lex}\<close>: the description and the offending token.\<close>

datatype ParseError = ParseError string Lex

text \<open>
  A channel \<^verbatim>\<open>chan Lex\<close> is the sequence of tokens the lexer still sends. The receive
  \<^verbatim>\<open><-c\<close> takes the first one; with no token left it never returns (\<open>None\<close>).
\<close>

type_synonym chan = "Lex list"

fun recv :: "chan \<Rightarrow> (Lex \<times> chan) option" where
  "recv [] = None"
| "recv (l # c) = Some (l, c)"

section \<open>Tail consumption\<close>

text \<open>
  \<^verbatim>\<open>slurpRemainder\<close>: the result is the returned \<^verbatim>\<open>error\<close> (\<open>None\<close> for \<^verbatim>\<open>nil\<close>)
  together with the channel after the call.
\<close>

definition slurpRemainder :: "chan \<Rightarrow> (ParseError option \<times> chan) option" where
  "slurpRemainder c =
     do {
       (l, c1) \<leftarrow> recv c;
       (case lvalue l of
          BLANK \<Rightarrow>
            do {
              (l2, c2) \<leftarrow> recv c1;
              (if lvalue l2 \<noteq> NEWLINE \<and> lvalue l2 \<noteq> EOF
               then Some (Some (ParseError ''garbage after rdata'' l2), c2)
               else Some (None, c2))
            }
        | NEWLINE \<Rightarrow> Some (None, c1)
        | EOF \<Rightarrow> Some (None, c1)
        | _ \<Rightarrow> Some (Some (ParseError ''garbage after rdata'' l), c1))
     }"

section \<open>Library functions used by the grammars\<close>

text \<open>
  \<^verbatim>\<open>strconv.Atoi\<close> of Go's standard library: an optional sign \<^verbatim>\<open>+\<close> or \<^verbatim>\<open>-\<close>, then
  one or more decimal digits and nothing else; the value must fit Go's \<^verbatim>\<open>int\<close>, taken
  as 64 bits wide. Every failure is an error (\<open>None\<close>).
\<close>

definition is_digit :: "char \<Rightarrow> bool" where
  "is_digit ch = ((48::nat) \<le> of_char ch \<and> (of_char ch :: nat) \<le> 57)"

fun decimal :: "nat \<Rightarrow> string \<Rightarrow> nat option" where
  "decimal n [] = Some n"
| "decimal n (ch # s) =
     (if is_digit ch then decimal (n * 10 + (of_char ch - 48)) s else None)"

definition Atoi :: "string \<Rightarrow> int option" where
  "Atoi s =
     (let neg = (s \<noteq> [] \<and> hd s = CHR ''-'');
          ds = (if s \<noteq> [] \<and> (hd s = CHR ''+'' \<or> hd s = CHR ''-'') then tl s else s)
      in if ds = [] then None
         else (case decimal 0 ds of
                 None \<Rightarrow> None
               | Some n \<Rightarrow>
                   (if neg then (if n \<le> 2 ^ 63 then Some (- int n) else None)
                    else (if n < 2 ^ 63 then Some (int n) else None))))"

text \<open>
  \<^verbatim>\<open>strings.ToUpper\<close>, on the ASCII letters; every other byte is kept as it is.
\<close>

definition upper_char :: "char \<Rightarrow> char" where
  "upper_char ch =
     (if (97::nat) \<le> of_char ch \<and> (of_char ch :: nat) \<le> 122
      then char_of (of_char ch - (32::nat)) else ch)"

definition ToUpper :: "string \<Rightarrow> string" where
  "ToUpper s = map upper_char s"

text \<open>
  \<^verbatim>\<open>net.ParseIP\<close> of Go's standard library: the text is tried as a dotted-decimal IPv4
  address and then as an IPv6 address; the result is the 16-byte form of either, or
  \<^verbatim>\<open>nil\<close> (\<open>None\<close>). The helpers follow package \<^verbatim>\<open>net\<close>: \<open>dtoi\<close> and \<open>xtoi\<close> read a
  decimal or hexadecimal number at the front of the text and return it with the rest.
\<close>

type_synonym IP = "8 word list"

definition big :: nat where
  "big = 16777215"

fun dtoi_loop :: "nat \<Rightarrow> string \<Rightarrow> (nat \<times> string) option" where
  "dtoi_loop n [] = Some (n, [])"
| "dtoi_loop n (ch # s) =
     (if is_digit ch
      then (let n' = n * 10 + (of_char ch - 48)
            in if n' \<ge> big then None else dtoi_loop n' s)
      else Some (n, ch # s))"

definition dtoi :: "string \<Rightarrow> (nat \<times> string) option" where
  "dtoi s =
     (case dtoi_loop 0 s of
        None \<Rightarrow> None
      | Some (n, s') \<Rightarrow> (if length s' = length s then None else Some (n, s')))"

definition hex_digit :: "char \<Rightarrow> nat option" where
  "hex_digit ch =
     (let b = (of_char ch :: nat)
      in if 48 \<le> b \<and> b \<le> 57 then Some (b - 48)
         else if 97 \<le> b \<and> b \<le> 102 then Some (b - 97 + 10)
         else if 65 \<le> b \<and> b \<le> 70 then Some (b - 65 + 10)
         else None)"

fun xtoi_loop :: "nat \<Rightarrow> string \<Rightarrow> (nat \<times> string) option" where
  "xtoi_loop n [] = Some (n, [])"
| "xtoi_loop n (ch # s) =
     (case hex_digit ch of
        None \<Rightarrow> Some (n, ch # s)
      | Some d \<Rightarrow>
          (let n' = n * 16 + d
           in if n' \<ge> big then None else xtoi_loop n' s))"

definition xtoi :: "string \<Rightarrow> (nat \<times> string) option" where
  "xtoi s =
     (case xtoi_loop 0 s of
        None \<Rightarrow> None
      | Some (n, s') \<Rightarrow> (if length s' = length s then None else Some (n, s')))"

text \<open>The four octets of \<^verbatim>\<open>parseIPv4\<close>; \<open>first\<close> is \<^verbatim>\<open>j == 0\<close>.\<close>

fun ipv4_octets :: "nat \<Rightarrow> bool \<Rightarrow> string \<Rightarrow> (8 word list \<times> string) option" where
  "ipv4_octets 0 first s = Some ([], s)"
| "ipv4_octets (Suc k) first s =
     (if s = [] then None
      else if \<not> first \<and> hd s \<noteq> CHR ''.'' then None
      else (case dtoi (if first then s else tl s) of
              None \<Rightarrow> None
            | Some (n, s2) \<Rightarrow>
                (if n > 255 then None
                 else (case ipv4_octets k False s2 of
                         None \<Rightarrow> None
                       | Some (p, s3) \<Rightarrow> Some (of_nat n # p, s3)))))"

definition parseIPv4 :: "string \<Rightarrow> IP option" where
  "parseIPv4 s =
     (case ipv4_octets 4 True s of
        None \<Rightarrow> None
      | Some (p, rest) \<Rightarrow>
          (if rest \<noteq> [] then None
           else Some (replicate 10 0 @ [255, 255] @ p)))"

text \<open>
  The loop of \<^verbatim>\<open>parseIPv6\<close>: \<open>k\<close> is the number of 16-bit groups that still fit
  (\<^verbatim>\<open>j < IPv6len\<close>), \<open>ip\<close> the bytes written so far (\<^verbatim>\<open>j\<close> is its length), \<open>ell\<close> the
  position of the ellipsis. It returns the ellipsis, the bytes and the unread text.
\<close>

fun ipv6_loop :: "nat \<Rightarrow> nat option \<Rightarrow> 8 word list \<Rightarrow> string
                    \<Rightarrow> (nat option \<times> 8 word list \<times> string) option" where
  "ipv6_loop 0 ell ip s = Some (ell, ip, s)"
| "ipv6_loop (Suc k) ell ip s =
     (case xtoi s of
        None \<Rightarrow> None
      | Some (n, s1) \<Rightarrow>
          (if n > 65535 then None
           else if s1 \<noteq> [] \<and> hd s1 = CHR ''.'' then
             (if ell = None \<and> length ip \<noteq> 12 then None
              else if length ip + 4 > 16 then None
              else (case parseIPv4 s of
                      None \<Rightarrow> None
                    | Some ip4 \<Rightarrow> Some (ell, ip @ drop 12 ip4, [])))
           else
             (let ip' = ip @ [of_nat (n div 256), of_nat n]
              in if s1 = [] then Some (ell, ip', [])
                 else if hd s1 \<noteq> CHR '':'' \<or> tl s1 = [] then None
                 else if hd (tl s1) = CHR '':'' then
                   (if ell \<noteq> None then None
                    else if tl (tl s1) = [] then Some (Some (length ip'), ip', [])
                    else ipv6_loop k (Some (length ip')) ip' (tl (tl s1)))
                 else ipv6_loop k ell ip' (tl s1))))"

definition parseIPv6 :: "string \<Rightarrow> IP option" where
  "parseIPv6 s =
     (let lead = (length s \<ge> 2 \<and> s ! 0 = CHR '':'' \<and> s ! 1 = CHR '':'')
      in if lead \<and> drop 2 s = [] then Some (replicate 16 0)
         else (case ipv6_loop 8 (if lead then Some 0 else None) []
                      (if lead then drop 2 s else s) of
                 None \<Rightarrow> None
               | Some (ell, ip, rest) \<Rightarrow>
                   (if rest \<noteq> [] then None
                    else if length ip < 16 then
                      (case ell of
                         None \<Rightarrow> None
                       | Some e \<Rightarrow>
                           Some (take e ip @ replicate (16 - length ip) 0 @ drop e ip))
                    else if ell \<noteq> None then None
                    else Some ip)))"

definition ParseIP :: "string \<Rightarrow> IP option" where
  "ParseIP s = (case parseIPv4 s of Some ip \<Rightarrow> Some ip | None \<Rightarrow> parseIPv6 s)"

section \<open>Records and collaborators\<close>

text \<open>
  Modelled from the spec: \<^verbatim>\<open>RR_Header\<close> is declared outside \<^verbatim>\<open>zscan_rr.go\<close>; it holds
  the owner name, the type code, the class and the TTL, and is copied into the record
  as it is.
\<close>

record RR_Header =
  Name :: string
  Rrtype :: "16 word"
  Class :: "16 word"
  Ttl :: "32 word"

text \<open>
  Modelled from the spec: the type-code constants are declared outside
  \<^verbatim>\<open>zscan_rr.go\<close>; their values are the registered DNS type codes.
\<close>

definition TypeA :: "16 word" where "TypeA = 1"
definition TypeNS :: "16 word" where "TypeNS = 2"
definition TypeCNAME :: "16 word" where "TypeCNAME = 5"
definition TypeSOA :: "16 word" where "TypeSOA = 6"
definition TypeMX :: "16 word" where "TypeMX = 15"
definition TypeTXT :: "16 word" where "TypeTXT = 16"
definition TypeAAAA :: "16 word" where "TypeAAAA = 28"
definition TypeRRSIG :: "16 word" where "TypeRRSIG = 46"
definition TypeNSEC :: "16 word" where "TypeNSEC = 47"
definition TypeNSEC3 :: "16 word" where "TypeNSEC3 = 50"

text \<open>The result of the date parser: a point in time, in seconds.\<close>

type_synonym Instant = nat

text \<open>
  The record types \<^verbatim>\<open>RR_A\<close> ... \<^verbatim>\<open>RR_TXT\<close> that implement the interface \<^verbatim>\<open>RR\<close>, with
  the fields the grammars assign, in the order of assignment.
\<close>

datatype RR =
    RR_A (Hdr: RR_Header) (A: IP)
  | RR_AAAA (Hdr: RR_Header) (AAAA: IP)
  | RR_NS (Hdr: RR_Header) (Ns: string)
  | RR_MX (Hdr: RR_Header) (Pref: "16 word") (Mx: string)
  | RR_CNAME (Hdr: RR_Header) (Cname: string)
  | RR_SOA (Hdr: RR_Header) (Ns: string) (Mbox: string) (Serial: "32 word")
      (Refresh: "32 word") (Retry: "32 word") (Expire: "32 word") (Minttl: "32 word")
  | RR_RRSIG (Hdr: RR_Header) (TypeCovered: "16 word") (Algorithm: "8 word")
      (Labels: "8 word") (OrigTtl: "32 word") (Expiration: Instant) (Inception: Instant)
      (KeyTag: "16 word") (SignerName: string) (Signature: string)
  | RR_NSEC (Hdr: RR_Header) (NextDomain: string) (TypeBitMap: "16 word list")
  | RR_NSEC3 (Hdr: RR_Header) (Hash: "8 word") (Flags: "8 word") (Iterations: "16 word")
      (SaltLength: "8 word") (Salt: string) (HashLength: "8 word") (NextDomain: string)
      (TypeBitMap: "16 word list")
  | RR_TXT (Hdr: RR_Header) (Txt: string)

text \<open>
  What \<^verbatim>\<open>zscan_rr.go\<close> uses and the repository declares elsewhere: the domain-name
  validator \<^verbatim>\<open>IsDomainName\<close>, the table \<^verbatim>\<open>Str_rr\<close> from mnemonics to type codes, the
  date parser \<^verbatim>\<open>dateToTime\<close> (\<open>None\<close> when it returns an error), and the tag of the
  zero token \<^verbatim>\<open>Lex{}\<close>, which depends on the values of the tag constants.
\<close>

record collab =
  IsDomainName :: "string \<Rightarrow> bool"
  Str_rr :: "string \<rightharpoonup> 16 word"
  dateToTime :: "string \<Rightarrow> Instant option"
  zero_lvalue :: lexvalue

text \<open>A grammar returns \<^verbatim>\<open>(nil, err)\<close> or \<^verbatim>\<open>(rr, nil)\<close>, and leaves the channel behind.\<close>

type_synonym 'a result = "((ParseError + 'a) \<times> chan) option"

section \<open>Fixed-arity grammars\<close>

definition setA :: "RR_Header \<Rightarrow> chan \<Rightarrow> RR result" where
  "setA h c =
     do {
       (l, c1) \<leftarrow> recv c;
       (case ParseIP (token l) of
          None \<Rightarrow> Some (Inl (ParseError ''bad a'' l), c1)
        | Some ip \<Rightarrow> Some (Inr (RR_A h ip), c1))
     }"

definition setAAAA :: "RR_Header \<Rightarrow> chan \<Rightarrow> RR result" where
  "setAAAA h c =
     do {
       (l, c1) \<leftarrow> recv c;
       (case ParseIP (token l) of
          None \<Rightarrow> Some (Inl (ParseError ''bad AAAA'' l), c1)
        | Some ip \<Rightarrow> Some (Inr (RR_AAAA h ip), c1))
     }"

definition setNS :: "collab \<Rightarrow> RR_Header \<Rightarrow> chan \<Rightarrow> RR result" where
  "setNS X h c =
     do {
       (l, c1) \<leftarrow> recv c;
       (if \<not> IsDomainName X (token l) then Some (Inl (ParseError ''bad NS'' l), c1)
        else Some (Inr (RR_NS h (token l)), c1))
     }"

definition setMX :: "collab \<Rightarrow> RR_Header \<Rightarrow> chan \<Rightarrow> RR result" where
  "setMX X h c =
     do {
       (l, c1) \<leftarrow> recv c;
       (case Atoi (token l) of
          None \<Rightarrow> Some (Inl (ParseError ''bad MX'' l), c1)
        | Some i \<Rightarrow>
            do {
              (b, c2) \<leftarrow> recv c1;
              (l2, c3) \<leftarrow> recv c2;
              (if \<not> IsDomainName X (token l2) then Some (Inl (ParseError ''bad CNAME'' l2), c3)
               else Some (Inr (RR_MX h (word_of_int i) (token l2)), c3))
            })
     }"

definition setCNAME :: "collab \<Rightarrow> RR_Header \<Rightarrow> chan \<Rightarrow> RR result" where
  "setCNAME X h c =
     do {
       (l, c1) \<leftarrow> recv c;
       (if \<not> IsDomainName X (token l) then Some (Inl (ParseError ''bad CNAME'' l), c1)
        else Some (Inr (RR_CNAME h (token l)), c1))
     }"

text \<open>The \<^verbatim>\<open>switch i\<close> of \<^verbatim>\<open>setSOA\<close>: the \<open>i\<close>-th zone parameter is stored, cut to 32 bits.\<close>

fun soa_assign :: "nat \<Rightarrow> int \<Rightarrow> RR \<Rightarrow> RR" where
  "soa_assign i j (RR_SOA h ns mb se rf rt ex mi) =
     (if i = 0 then RR_SOA h ns mb (word_of_int j) rf rt ex mi
      else if i = 1 then RR_SOA h ns mb se (word_of_int j) rt ex mi
      else if i = 2 then RR_SOA h ns mb se rf (word_of_int j) ex mi
      else if i = 3 then RR_SOA h ns mb se rf rt (word_of_int j) mi
      else if i = 4 then RR_SOA h ns mb se rf rt ex (word_of_int j)
      else RR_SOA h ns mb se rf rt ex mi)"
| "soa_assign i j rr = rr"

text \<open>The loop \<^verbatim>\<open>for i := 0; i < 5; i++\<close> of \<^verbatim>\<open>setSOA\<close>.\<close>

function soa_loop :: "nat \<Rightarrow> RR \<Rightarrow> chan \<Rightarrow> RR result" where
  "soa_loop i rr c =
     (if i < 5 then
        do {
          (l, c1) \<leftarrow> recv c;
          (case Atoi (token l) of
             None \<Rightarrow> Some (Inl (ParseError ''bad SOA zone parameter'' l), c1)
           | Some j \<Rightarrow>
               do {
                 (b, c2) \<leftarrow> recv c1;
                 soa_loop (i + 1) (soa_assign i j rr) c2
               })
        }
      else Some (Inr rr, c))"
  by pat_completeness auto
termination
  by (relation "measure (\<lambda>(i, rr, c). 5 - i)") auto

declare soa_loop.simps [simp del]

definition setSOA :: "collab \<Rightarrow> RR_Header \<Rightarrow> chan \<Rightarrow> RR result" where
  "setSOA X h c =
     do {
       (l, c1) \<leftarrow> recv c;
       (b, c2) \<leftarrow> recv c1;
       (if \<not> IsDomainName X (token l) then Some (Inl (ParseError ''bad SOA mname'' l), c2)
        else
          do {
            (l2, c3) \<leftarrow> recv c2;
            (if \<not> IsDomainName X (token l2)
             then Some (Inl (ParseError ''bad SOA rname'' l2), c3)
             else
               do {
                 (b2, c4) \<leftarrow> recv c3;
                 soa_loop 0 (RR_SOA h (token l) (token l2) 0 0 0 0 0) c4
               })
          })
     }"

section \<open>Variable-tail grammars\<close>

text \<open>
  The scan loops. Each call stands for one receive \<^verbatim>\<open>l = <-c\<close> followed by the test of
  the loop: the one before the loop, or the one that ends the previous iteration.
\<close>

fun rrsig_loop :: "string \<Rightarrow> chan \<Rightarrow> string result" where
  "rrsig_loop s [] = None"
| "rrsig_loop s (l # c) =
     (if lvalue l \<noteq> NEWLINE \<and> lvalue l \<noteq> EOF then
        (case lvalue l of
           STRING \<Rightarrow> rrsig_loop (s @ token l) c
         | BLANK \<Rightarrow> rrsig_loop s c
         | _ \<Rightarrow> Some (Inl (ParseError ''bad RRSIG'' l), c))
      else Some (Inr s, c))"

definition setRRSIG :: "collab \<Rightarrow> RR_Header \<Rightarrow> chan \<Rightarrow> RR result" where
  "setRRSIG X h c =
     do {
       (l, c) \<leftarrow> recv c;
       (case Str_rr X (ToUpper (token l)) of
          None \<Rightarrow> Some (Inl (ParseError ''bad RRSIG'' l), c)
        | Some t \<Rightarrow>
       do {
       (b, c) \<leftarrow> recv c;
       (l, c) \<leftarrow> recv c;
       (case Atoi (token l) of
          None \<Rightarrow> Some (Inl (ParseError ''bad RRSIG'' l), c)
        | Some alg \<Rightarrow>
       do {
       (b, c) \<leftarrow> recv c;
       (l, c) \<leftarrow> recv c;
       (case Atoi (token l) of
          None \<Rightarrow> Some (Inl (ParseError ''bad RRSIG'' l), c)
        | Some lab \<Rightarrow>
       do {
       (b, c) \<leftarrow> recv c;
       (l, c) \<leftarrow> recv c;
       (case Atoi (token l) of
          None \<Rightarrow> Some (Inl (ParseError ''bad RRSIG'' l), c)
        | Some ottl \<Rightarrow>
       do {
       (b, c) \<leftarrow> recv c;
       (l, c) \<leftarrow> recv c;
       (case dateToTime X (token l) of
          None \<Rightarrow> Some (Inl (ParseError ''bad RRSIG'' l), c)
        | Some exp \<Rightarrow>
       do {
       (b, c) \<leftarrow> recv c;
       (l, c) \<leftarrow> recv c;
       (case dateToTime X (token l) of
          None \<Rightarrow> Some (Inl (ParseError ''bad RRSIG'' l), c)
        | Some inc \<Rightarrow>
       do {
       (b, c) \<leftarrow> recv c;
       (l, c) \<leftarrow> recv c;
       (case Atoi (token l) of
          None \<Rightarrow> Some (Inl (ParseError ''bad RRSIG'' l), c)
        | Some tag \<Rightarrow>
       do {
       (b, c) \<leftarrow> recv c;
       (l, c) \<leftarrow> recv c;
       (if \<not> IsDomainName X (token l) then Some (Inl (ParseError ''bad RRSIG'' l), c)
        else
          (case rrsig_loop [] c of
             None \<Rightarrow> None
           | Some (Inl e, c) \<Rightarrow> Some (Inl e, c)
           | Some (Inr s, c) \<Rightarrow>
               Some (Inr (RR_RRSIG h t (word_of_int alg) (word_of_int lab) (word_of_int ottl)
                            exp inc (word_of_int tag) (token l) s), c)))
       }) }) }) }) }) }) })
     }"

fun nsec_loop :: "collab \<Rightarrow> 16 word list \<Rightarrow> chan \<Rightarrow> (16 word list) result" where
  "nsec_loop X bm [] = None"
| "nsec_loop X bm (l # c) =
     (if lvalue l \<noteq> NEWLINE \<and> lvalue l \<noteq> EOF then
        (case lvalue l of
           BLANK \<Rightarrow> nsec_loop X bm c
         | STRING \<Rightarrow>
             (case Str_rr X (ToUpper (token l)) of
                None \<Rightarrow> Some (Inl (ParseError ''bad NSEC non RR in type bitmap'' l), c)
              | Some k \<Rightarrow> nsec_loop X (bm @ [k]) c)
         | _ \<Rightarrow> Some (Inl (ParseError ''bad NSEC garbage in type bitmap'' l), c))
      else Some (Inr bm, c))"

definition setNSEC :: "collab \<Rightarrow> RR_Header \<Rightarrow> chan \<Rightarrow> RR result" where
  "setNSEC X h c =
     do {
       (l, c1) \<leftarrow> recv c;
       (if \<not> IsDomainName X (token l)
        then Some (Inl (ParseError ''bad NSEC nextdomain'' l), c1)
        else
          (case nsec_loop X [] c1 of
             None \<Rightarrow> None
           | Some (Inl e, c2) \<Rightarrow> Some (Inl e, c2)
           | Some (Inr bm, c2) \<Rightarrow> Some (Inr (RR_NSEC h (token l) bm), c2)))
     }"

fun nsec3_loop :: "collab \<Rightarrow> 16 word list \<Rightarrow> chan \<Rightarrow> (16 word list) result" where
  "nsec3_loop X bm [] = None"
| "nsec3_loop X bm (l # c) =
     (if lvalue l \<noteq> NEWLINE \<and> lvalue l \<noteq> EOF then
        (case lvalue l of
           BLANK \<Rightarrow> nsec3_loop X bm c
         | STRING \<Rightarrow>
             (case Str_rr X (ToUpper (token l)) of
                None \<Rightarrow> Some (Inl (ParseError ''bad NSEC3'' l), c)
              | Some k \<Rightarrow> nsec3_loop X (bm @ [k]) c)
         | _ \<Rightarrow> Some (Inl (ParseError ''bad NSEC3'' l), c))
      else Some (Inr bm, c))"

definition setNSEC3 :: "collab \<Rightarrow> RR_Header \<Rightarrow> chan \<Rightarrow> RR result" where
  "setNSEC3 X h c =
     do {
       (l, c) \<leftarrow> recv c;
       (case Atoi (token l) of
          None \<Rightarrow> Some (Inl (ParseError ''bad NSEC3'' l), c)
        | Some hash \<Rightarrow>
       do {
       (b, c) \<leftarrow> recv c;
       (l, c) \<leftarrow> recv c;
       (case Atoi (token l) of
          None \<Rightarrow> Some (Inl (ParseError ''bad NSEC3'' l), c)
        | Some flags \<Rightarrow>
       do {
       (b, c) \<leftarrow> recv c;
       (l, c) \<leftarrow> recv c;
       (case Atoi (token l) of
          None \<Rightarrow> Some (Inl (ParseError ''bad NSEC3'' l), c)
        | Some iter \<Rightarrow>
       do {
       (b, c) \<leftarrow> recv c;
       (salt, c) \<leftarrow> recv c;
       (b, c) \<leftarrow> recv c;
       (nd, c) \<leftarrow> recv c;
       (case nsec3_loop X [] c of
          None \<Rightarrow> None
        | Some (Inl e, c) \<Rightarrow> Some (Inl e, c)
        | Some (Inr bm, c) \<Rightarrow>
            Some (Inr (RR_NSEC3 h (word_of_int hash) (word_of_int flags) (word_of_int iter)
                         (of_nat (length (token salt))) (token salt)
                         (of_nat (length (token nd))) (token nd) bm), c))
       }) }) })
     }"

fun txt_loop :: "string \<Rightarrow> chan \<Rightarrow> string result" where
  "txt_loop s [] = None"
| "txt_loop s (l # c) =
     (if lvalue l \<noteq> NEWLINE \<and> lvalue l \<noteq> EOF then
        (case lvalue l of
           STRING \<Rightarrow> txt_loop (s @ token l) c
         | BLANK \<Rightarrow> txt_loop (s @ token l) c
         | _ \<Rightarrow> Some (Inl (ParseError ''bad TXT'' l), c))
      else Some (Inr s, c))"

definition setTXT :: "RR_Header \<Rightarrow> chan \<Rightarrow> RR result" where
  "setTXT h c =
     (case txt_loop [] c of
        None \<Rightarrow> None
      | Some (Inl e, c1) \<Rightarrow> Some (Inl e, c1)
      | Some (Inr s, c1) \<Rightarrow> Some (Inr (RR_TXT h s), c1))"

section \<open>The dispatcher\<close>

text \<open>
  The block that follows each fixed-arity grammar in \<^verbatim>\<open>setRR\<close>: an error of the
  grammar is returned; otherwise \<^verbatim>\<open>slurpRemainder\<close> runs and its error, if any, is
  returned in place of the record.
\<close>

definition slurp_after :: "RR result \<Rightarrow> RR result" where
  "slurp_after m =
     (case m of
        None \<Rightarrow> None
      | Some (Inl e, c1) \<Rightarrow> Some (Inl e, c1)
      | Some (Inr r, c1) \<Rightarrow>
          (case slurpRemainder c1 of
             None \<Rightarrow> None
           | Some (Some se, c2) \<Rightarrow> Some (Inl se, c2)
           | Some (None, c2) \<Rightarrow> Some (Inr r, c2)))"

definition setRR :: "collab \<Rightarrow> RR_Header \<Rightarrow> chan \<Rightarrow> RR result" where
  "setRR X h c =
     (if Rrtype h = TypeA then slurp_after (setA h c)
      else if Rrtype h = TypeAAAA then slurp_after (setAAAA h c)
      else if Rrtype h = TypeNS then slurp_after (setNS X h c)
      else if Rrtype h = TypeMX then slurp_after (setMX X h c)
      else if Rrtype h = TypeCNAME then slurp_after (setCNAME X h c)
      else if Rrtype h = TypeSOA then slurp_after (setSOA X h c)
      else if Rrtype h = TypeRRSIG then setRRSIG X h c
      else if Rrtype h = TypeNSEC then setNSEC X h c
      else if Rrtype h = TypeNSEC3 then setNSEC3 X h c
      else if Rrtype h = TypeTXT then setTXT h c
      else Some (Inl (ParseError ''Unknown RR type'' \<lparr>token = [], lvalue = zero_lvalue X\<rparr>), c))"

section \<open>Concrete collaborators and tokens\<close>

text \<open>
  An instance of the collaborators for running the grammars on concrete streams: names
  are non-empty texts without a space, the table holds the mnemonics of the ten
  types above, and a date is fourteen digits, read as a number.
\<close>

definition sample_collab :: collab where
  "sample_collab =
     \<lparr>IsDomainName = (\<lambda>s. s \<noteq> [] \<and> CHR '' '' \<notin> set s),
      Str_rr = map_of [(''A'', TypeA), (''NS'', TypeNS), (''CNAME'', TypeCNAME),
                       (''SOA'', TypeSOA), (''MX'', TypeMX), (''TXT'', TypeTXT),
                       (''AAAA'', TypeAAAA), (''RRSIG'', TypeRRSIG), (''NSEC'', TypeNSEC),
                       (''NSEC3'', TypeNSEC3)],
      dateToTime = (\<lambda>s. if length s = 14 then decimal 0 s else None),
      zero_lvalue = EOF\<rparr>"

definition str :: "string \<Rightarrow> Lex" where
  "str s = \<lparr>token = s, lvalue = STRING\<rparr>"

definition blank :: Lex where
  "blank = \<lparr>token = '' '', lvalue = BLANK\<rparr>"

definition newline :: Lex where
  "newline = \<lparr>token = [CHR 0x0A], lvalue = NEWLINE\<rparr>"

definition eof :: Lex where
  "eof = \<lparr>token = [], lvalue = EOF\<rparr>"

definition hdr :: "16 word \<Rightarrow> RR_Header" where
  "hdr t = \<lparr>Name = ''example.org.'', Rrtype = t, Class = 1, Ttl = 3600\<rparr>"

section \<open>The numeric decode rule in the words of the specification\<close>

text \<open>
  The specification's rule for a numeric field of \<open>w\<close> bits, in its own words: the text
  parses as a base-10 unsigned integer that fits the width.
\<close>

definition spec_fits_unsigned :: "nat \<Rightarrow> string \<Rightarrow> bool" where
  "spec_fits_unsigned w s =
     (s \<noteq> [] \<and> (case decimal 0 s of None \<Rightarrow> False | Some n \<Rightarrow> n < 2 ^ w))"

section \<open>Properties of tail consumption\<close>

text \<open>
  C3. \<^verbatim>\<open>slurpRemainder\<close> reads one token and succeeds when it is NEWLINE or EOF; when
  it is BLANK it reads one more token and succeeds exactly when that one is NEWLINE or
  EOF; every other case is the error "garbage after rdata" with the offending token;
  it reads at least one and at most two tokens, and the channel afterwards is what
  follows them.
\<close>

theorem slurpRemainder_contract:
  "(lvalue l = NEWLINE \<or> lvalue l = EOF \<longrightarrow> slurpRemainder (l # c) = Some (None, c))
   \<and> (lvalue l = BLANK \<longrightarrow>
        slurpRemainder (l # l2 # c) =
          Some (if lvalue l2 = NEWLINE \<or> lvalue l2 = EOF then None
                else Some (ParseError ''garbage after rdata'' l2), c))
   \<and> (lvalue l \<noteq> NEWLINE \<and> lvalue l \<noteq> EOF \<and> lvalue l \<noteq> BLANK \<longrightarrow>
        slurpRemainder (l # c) = Some (Some (ParseError ''garbage after rdata'' l), c))
   \<and> (\<forall>r c'. slurpRemainder c0 = Some (r, c') \<longrightarrow>
        (\<exists>pre. c0 = pre @ c' \<and> 1 \<le> length pre \<and> length pre \<le> 2))"
proof (intro conjI impI allI)
  assume "lvalue l = NEWLINE \<or> lvalue l = EOF"
  then show "slurpRemainder (l # c) = Some (None, c)"
    by (auto simp: slurpRemainder_def)
next
  assume "lvalue l = BLANK"
  then show "slurpRemainder (l # l2 # c) =
      Some (if lvalue l2 = NEWLINE \<or> lvalue l2 = EOF then None
            else Some (ParseError ''garbage after rdata'' l2), c)"
    by (simp add: slurpRemainder_def)
next
  assume "lvalue l \<noteq> NEWLINE \<and> lvalue l \<noteq> EOF \<and> lvalue l \<noteq> BLANK"
  then show "slurpRemainder (l # c) = Some (Some (ParseError ''garbage after rdata'' l), c)"
    by (cases "lvalue l") (simp_all add: slurpRemainder_def)
next
  fix r c'
  assume a: "slurpRemainder c0 = Some (r, c')"
  show "\<exists>pre. c0 = pre @ c' \<and> 1 \<le> length pre \<and> length pre \<le> 2"
  proof (cases c0)
    case Nil
    with a show ?thesis by (simp add: slurpRemainder_def)
  next
    case (Cons l1 c1)
    show ?thesis
    proof (cases "lvalue l1 = BLANK")
      case False
      with a Cons have "c' = c1"
        by (cases "lvalue l1") (auto simp: slurpRemainder_def)
      with Cons have "c0 = [l1] @ c'" by simp
      then show ?thesis by (intro exI [of _ "[l1]"]) simp
    next
      case True
      show ?thesis
      proof (cases c1)
        case Nil
        with a Cons True show ?thesis by (simp add: slurpRemainder_def)
      next
        case (Cons l2 c2)
        with a \<open>c0 = l1 # c1\<close> True have "c' = c2"
          by (auto simp: slurpRemainder_def split: if_splits)
        with Cons \<open>c0 = l1 # c1\<close> have "c0 = [l1, l2] @ c'" by simp
        then show ?thesis by (intro exI [of _ "[l1, l2]"]) simp
      qed
    qed
  qed
qed

theorem slurpRemainder_contract_witness:
  "slurpRemainder [\<lparr>token = ''\<newline>'', lvalue = NEWLINE\<rparr>] = Some (None, [])
   \<and> slurpRemainder [\<lparr>token = '' '', lvalue = BLANK\<rparr>, \<lparr>token = ''x'', lvalue = STRING\<rparr>]
       = Some (Some (ParseError ''garbage after rdata'' \<lparr>token = ''x'', lvalue = STRING\<rparr>), [])
   \<and> slurpRemainder [\<lparr>token = ''x'', lvalue = STRING\<rparr>, \<lparr>token = ''y'', lvalue = STRING\<rparr>]
       = Some (Some (ParseError ''garbage after rdata'' \<lparr>token = ''x'', lvalue = STRING\<rparr>),
               [\<lparr>token = ''y'', lvalue = STRING\<rparr>])"
  using slurpRemainder_contract
    [of "\<lparr>token = ''\<newline>'', lvalue = NEWLINE\<rparr>" "[]"
        "\<lparr>token = ''x'', lvalue = STRING\<rparr>" "[]"]
    slurpRemainder_contract
    [of "\<lparr>token = '' '', lvalue = BLANK\<rparr>" "[]"
        "\<lparr>token = ''x'', lvalue = STRING\<rparr>" "[]"]
    slurpRemainder_contract
    [of "\<lparr>token = ''x'', lvalue = STRING\<rparr>" "[\<lparr>token = ''y'', lvalue = STRING\<rparr>]"
        "\<lparr>token = ''x'', lvalue = STRING\<rparr>" "[]"]
  by simp

section \<open>Evaluation of the library functions\<close>

lemma recv_eq_Some: "recv c = Some (l, c1) \<longleftrightarrow> c = l # c1"
  by (cases c) auto

lemma ipv4_octets_numeral:
  "ipv4_octets (numeral k) first s =
     (if s = [] then None
      else if \<not> first \<and> hd s \<noteq> CHR ''.'' then None
      else (case dtoi (if first then s else tl s) of
              None \<Rightarrow> None
            | Some (n, s2) \<Rightarrow>
                (if n > 255 then None
                 else (case ipv4_octets (pred_numeral k) False s2 of
                         None \<Rightarrow> None
                       | Some (p, s3) \<Rightarrow> Some (of_nat n # p, s3)))))"
  using ipv4_octets.simps(2) [of "pred_numeral k" first s]
  by (simp only: numeral_eq_Suc)

lemma ipv4_octets_1:
  "ipv4_octets 1 first s =
     (if s = [] then None
      else if \<not> first \<and> hd s \<noteq> CHR ''.'' then None
      else (case dtoi (if first then s else tl s) of
              None \<Rightarrow> None
            | Some (n, s2) \<Rightarrow> (if n > 255 then None else Some ([of_nat n], s2))))"
  using ipv4_octets.simps(2) [of 0 first s]
  by (simp split: option.splits)

lemma ipv6_loop_numeral:
  "ipv6_loop (numeral k) ell ip s =
     (case xtoi s of
        None \<Rightarrow> None
      | Some (n, s1) \<Rightarrow>
          (if n > 65535 then None
           else if s1 \<noteq> [] \<and> hd s1 = CHR ''.'' then
             (if ell = None \<and> length ip \<noteq> 12 then None
              else if length ip + 4 > 16 then None
              else (case parseIPv4 s of
                      None \<Rightarrow> None
                    | Some ip4 \<Rightarrow> Some (ell, ip @ drop 12 ip4, [])))
           else
             (let ip' = ip @ [of_nat (n div 256), of_nat n]
              in if s1 = [] then Some (ell, ip', [])
                 else if hd s1 \<noteq> CHR '':'' \<or> tl s1 = [] then None
                 else if hd (tl s1) = CHR '':'' then
                   (if ell \<noteq> None then None
                    else if tl (tl s1) = [] then Some (Some (length ip'), ip', [])
                    else ipv6_loop (pred_numeral k) (Some (length ip')) ip' (tl (tl s1)))
                 else ipv6_loop (pred_numeral k) ell ip' (tl s1))))"
  using ipv6_loop.simps(2) [of "pred_numeral k" ell ip s]
  by (simp only: numeral_eq_Suc)

lemma replicate_numeral_unfold: "replicate (numeral k) x = x # replicate (pred_numeral k) x"
  by (simp add: numeral_eq_Suc)

lemmas ip_eval = ipv4_octets_numeral ipv4_octets_1 ipv6_loop_numeral replicate_numeral_unfold
  parseIPv4_def parseIPv6_def dtoi_def xtoi_def hex_digit_def is_digit_def big_def Let_def

lemma parseIPv4_loopback6: "parseIPv4 ''::1'' = None"
  by (simp add: ip_eval)

lemma parseIPv6_loopback6: "parseIPv6 ''::1'' = Some [0,0,0,0,0,0,0,0,0,0,0,0,0,0,0,1]"
  by (simp add: ip_eval)

lemma parseIPv4_doc4: "parseIPv4 ''192.0.2.1'' = Some [0,0,0,0,0,0,0,0,0,0,255,255,192,0,2,1]"
  by (simp add: ip_eval)

lemma parseIPv6_doc4: "parseIPv6 ''192.0.2.1'' = None"
  by (simp add: ip_eval)

lemma ParseIP_None: "ParseIP s = None \<longleftrightarrow> parseIPv4 s = None \<and> parseIPv6 s = None"
  by (simp add: ParseIP_def split: option.splits)

section \<open>The dispatcher on an unknown type code\<close>

text \<open>
  C4. For a header whose type code is none of the ten supported ones, \<^verbatim>\<open>setRR\<close> returns
  the error "Unknown RR type" with the zero token \<^verbatim>\<open>Lex{}\<close>, whose text is empty, and
  the channel is as it was: no token has been received.
\<close>

theorem setRR_unknown_type:
  "Rrtype h \<notin> {TypeA, TypeAAAA, TypeNS, TypeMX, TypeCNAME, TypeSOA, TypeRRSIG, TypeNSEC,
                TypeNSEC3, TypeTXT} \<Longrightarrow>
   setRR X h c = Some (Inl (ParseError ''Unknown RR type'' \<lparr>token = [], lvalue = zero_lvalue X\<rparr>), c)"
  by (simp add: setRR_def)

theorem setRR_unknown_type_witness:
  "Rrtype (hdr 65535) \<notin> {TypeA, TypeAAAA, TypeNS, TypeMX, TypeCNAME, TypeSOA, TypeRRSIG,
                           TypeNSEC, TypeNSEC3, TypeTXT}
   \<and> setRR sample_collab (hdr 65535) [str ''x'']
       = Some (Inl (ParseError ''Unknown RR type'' \<lparr>token = [], lvalue = EOF\<rparr>), [str ''x''])"
  using setRR_unknown_type [of "hdr 65535" sample_collab "[str ''x'']"]
  by (simp add: hdr_def sample_collab_def TypeA_def TypeAAAA_def TypeNS_def TypeMX_def
      TypeCNAME_def TypeSOA_def TypeRRSIG_def TypeNSEC_def TypeNSEC3_def TypeTXT_def)

section \<open>The address grammars\<close>

text \<open>
  C2, as amended. \<^verbatim>\<open>setA\<close> and \<^verbatim>\<open>setAAAA\<close> both call \<^verbatim>\<open>net.ParseIP\<close> and do not look
  at the family of the result: each succeeds exactly when the text of the token is a
  valid address of either family, IPv4 or IPv6. A text that is neither gives the error
  "bad a" or "bad AAAA" with that token.
\<close>

theorem address_grammars_accept_both_families:
  "((\<exists>ip. setA h (l # c) = Some (Inr (RR_A h ip), c))
      \<longleftrightarrow> parseIPv4 (token l) \<noteq> None \<or> parseIPv6 (token l) \<noteq> None)
   \<and> ((\<exists>ip. setAAAA h (l # c) = Some (Inr (RR_AAAA h ip), c))
      \<longleftrightarrow> parseIPv4 (token l) \<noteq> None \<or> parseIPv6 (token l) \<noteq> None)
   \<and> (parseIPv4 (token l) = None \<and> parseIPv6 (token l) = None \<longrightarrow>
        setA h (l # c) = Some (Inl (ParseError ''bad a'' l), c)
        \<and> setAAAA h (l # c) = Some (Inl (ParseError ''bad AAAA'' l), c))"
  using ParseIP_None [of "token l"]
  by (cases "ParseIP (token l)") (auto simp: setA_def setAAAA_def)

theorem address_grammars_accept_both_families_witness:
  "parseIPv6 ''::1'' = Some [0,0,0,0,0,0,0,0,0,0,0,0,0,0,0,1]
   \<and> (\<exists>ip. setA (hdr TypeA) [str ''::1'', newline] = Some (Inr (RR_A (hdr TypeA) ip), [newline]))
   \<and> (\<exists>ip. setAAAA (hdr TypeAAAA) [str ''::1'', newline]
              = Some (Inr (RR_AAAA (hdr TypeAAAA) ip), [newline]))
   \<and> parseIPv4 ''example'' = None \<and> parseIPv6 ''example'' = None
   \<and> setA (hdr TypeA) [str ''example'', newline]
       = Some (Inl (ParseError ''bad a'' (str ''example'')), [newline])
   \<and> setAAAA (hdr TypeAAAA) [str ''example'', newline]
       = Some (Inl (ParseError ''bad AAAA'' (str ''example'')), [newline])"
proof -
  have a: "parseIPv4 (token (str ''example'')) = None \<and> parseIPv6 (token (str ''example'')) = None"
    by (simp add: str_def ip_eval)
  have b: "parseIPv6 (token (str ''::1'')) = Some [0,0,0,0,0,0,0,0,0,0,0,0,0,0,0,1]"
    by (simp add: str_def parseIPv6_loopback6)
  show ?thesis
    using a b
      address_grammars_accept_both_families [of "hdr TypeA" "str ''::1''" "[newline]"]
      address_grammars_accept_both_families [of "hdr TypeAAAA" "str ''::1''" "[newline]"]
      address_grammars_accept_both_families [of "hdr TypeA" "str ''example''" "[newline]"]
      address_grammars_accept_both_families [of "hdr TypeAAAA" "str ''example''" "[newline]"]
    by (simp add: str_def)
qed

text \<open>
  C2 as stated fails: \<^verbatim>\<open>::1\<close> is not an IPv4 address and the A grammar accepts it;
  \<^verbatim>\<open>192.0.2.1\<close> is not an IPv6 address and the AAAA grammar accepts it.
\<close>

theorem address_family_counterexample:
  "parseIPv4 ''::1'' = None
   \<and> setA (hdr TypeA) [str ''::1'', newline]
       = Some (Inr (RR_A (hdr TypeA) [0,0,0,0,0,0,0,0,0,0,0,0,0,0,0,1]), [newline])
   \<and> parseIPv6 ''192.0.2.1'' = None
   \<and> setAAAA (hdr TypeAAAA) [str ''192.0.2.1'', newline]
       = Some (Inr (RR_AAAA (hdr TypeAAAA) [0,0,0,0,0,0,0,0,0,0,255,255,192,0,2,1]), [newline])"
  by (simp add: setA_def setAAAA_def ParseIP_def str_def parseIPv4_loopback6 parseIPv6_loopback6 parseIPv4_doc4 parseIPv6_doc4)

section \<open>The mail-exchange grammar\<close>

lemma Atoi_10: "Atoi ''10'' = Some 10"
  by (simp add: Atoi_def is_digit_def)

text \<open>
  C5. The claim asks for the label of the record's own type on every failing field of
  an MX record. The code gives "bad MX" for the preference and "bad CNAME" for the
  exchange name; this is the run of \<^verbatim>\<open>setMX\<close> on a stream whose exchange name is not a
  domain name.
\<close>

theorem setMX_exchange_error_says_CNAME:
  "setMX sample_collab (hdr TypeMX) [str ''10'', blank, str ''bad name'', newline]
     = Some (Inl (ParseError ''bad CNAME'' (str ''bad name'')), [newline])"
  by (simp add: setMX_def str_def sample_collab_def Atoi_10)

section \<open>Numeric fields\<close>

lemma setMX_Inr:
  "setMX X h c = Some (Inr r, c') \<Longrightarrow>
     \<exists>i. Atoi (token (c ! 0)) = Some i \<and> Pref r = word_of_int i"
  by (auto simp: setMX_def bind_eq_Some_conv recv_eq_Some split: option.splits if_splits)

lemma setMX_bad_number:
  "0 < length c \<Longrightarrow> Atoi (token (c ! 0)) = None \<Longrightarrow> \<exists>e c'. setMX X h c = Some (Inl e, c')"
  by (cases c) (auto simp: setMX_def)

lemma result_case_eq_Inr:
  "(case m of None \<Rightarrow> None
    | Some (Inl e, c) \<Rightarrow> Some (Inl e, c)
    | Some (Inr s, c) \<Rightarrow> Some (Inr (f s), c)) = Some (Inr r, c')
   \<longleftrightarrow> (\<exists>s. m = Some (Inr s, c') \<and> r = f s)"
  by (auto split: option.splits sum.splits prod.splits)

lemma field_case_eq_Inr:
  "(case x of None \<Rightarrow> Some (Inl e, c) | Some v \<Rightarrow> g v) = Some (Inr r, c')
   \<longleftrightarrow> (\<exists>v. x = Some v \<and> g v = Some (Inr r, c'))"
  by (cases x) auto

lemma field_if_eq_Inr:
  "(if b then Some (Inl e, c) else m) = Some (Inr r, c') \<longleftrightarrow> \<not> b \<and> m = Some (Inr r, c')"
  by auto

lemmas success_simps = bind_eq_Some_conv recv_eq_Some result_case_eq_Inr field_case_eq_Inr
  field_if_eq_Inr

lemma setRRSIG_Inr:
  "setRRSIG X h c = Some (Inr r, c') \<Longrightarrow>
     \<exists>i1 i2 i3 i4. Atoi (token (c ! 2)) = Some i1 \<and> Algorithm r = word_of_int i1
       \<and> Atoi (token (c ! 4)) = Some i2 \<and> Labels r = word_of_int i2
       \<and> Atoi (token (c ! 6)) = Some i3 \<and> OrigTtl r = word_of_int i3
       \<and> Atoi (token (c ! 12)) = Some i4 \<and> KeyTag r = word_of_int i4"
  by (auto simp: setRRSIG_def success_simps)

lemma setNSEC3_Inr:
  "setNSEC3 X h c = Some (Inr r, c') \<Longrightarrow>
     \<exists>i1 i2 i3. Atoi (token (c ! 0)) = Some i1 \<and> Hash r = word_of_int i1
       \<and> Atoi (token (c ! 2)) = Some i2 \<and> Flags r = word_of_int i2
       \<and> Atoi (token (c ! 4)) = Some i3 \<and> Iterations r = word_of_int i3"
  by (auto simp: setNSEC3_def success_simps)


lemma Suc_lt_length: "Suc n < length c \<longleftrightarrow> (\<exists>x c'. c = x # c' \<and> n < length c')"
  by (cases c) auto

lemma setRRSIG_bad_number:
  "k \<in> {2, 4, 6, 12} \<Longrightarrow> k < length c \<Longrightarrow> Atoi (token (c ! k)) = None \<Longrightarrow>
     \<exists>e c'. setRRSIG X h c = Some (Inl e, c')"
  by (auto simp: numeral_eq_Suc Suc_lt_length neq_Nil_conv setRRSIG_def split: option.splits)

lemma setNSEC3_bad_number:
  "k \<in> {0, 2, 4} \<Longrightarrow> k < length c \<Longrightarrow> Atoi (token (c ! k)) = None \<Longrightarrow>
     \<exists>e c'. setNSEC3 X h c = Some (Inl e, c')"
  by (auto simp: numeral_eq_Suc Suc_lt_length neq_Nil_conv setNSEC3_def split: option.splits)


lemma soa_loop_done: "\<not> i < 5 \<Longrightarrow> soa_loop i rr c = Some (Inr rr, c)"
  by (subst soa_loop.simps) simp

lemma soa_loop_eq_Inr:
  "i < 5 \<Longrightarrow>
   soa_loop i rr c = Some (Inr r, c') \<longleftrightarrow>
     (\<exists>l b c2 j. c = l # b # c2 \<and> Atoi (token l) = Some j
        \<and> soa_loop (i + 1) (soa_assign i j rr) c2 = Some (Inr r, c'))"
  by (subst soa_loop.simps) (auto simp: success_simps)

lemma soa_loop_cons:
  "i < 5 \<Longrightarrow>
   soa_loop i rr (l # b # c) =
     (case Atoi (token l) of
        None \<Rightarrow> Some (Inl (ParseError ''bad SOA zone parameter'' l), b # c)
      | Some j \<Rightarrow> soa_loop (i + 1) (soa_assign i j rr) c)"
  by (subst soa_loop.simps) (simp split: option.splits)

lemma soa_loop_bad:
  "i < 5 \<Longrightarrow> Atoi (token l) = None \<Longrightarrow>
   soa_loop i rr (l # c) = Some (Inl (ParseError ''bad SOA zone parameter'' l), c)"
  by (subst soa_loop.simps) simp

lemma setSOA_Inr:
  "setSOA X h c = Some (Inr r, c') \<Longrightarrow>
     \<exists>i1 i2 i3 i4 i5.
       Atoi (token (c ! 4)) = Some i1 \<and> Serial r = word_of_int i1
       \<and> Atoi (token (c ! 6)) = Some i2 \<and> Refresh r = word_of_int i2
       \<and> Atoi (token (c ! 8)) = Some i3 \<and> Retry r = word_of_int i3
       \<and> Atoi (token (c ! 10)) = Some i4 \<and> Expire r = word_of_int i4
       \<and> Atoi (token (c ! 12)) = Some i5 \<and> Minttl r = word_of_int i5"
  by (auto simp: setSOA_def success_simps soa_loop_eq_Inr soa_loop_done)

lemma setSOA_bad_number:
  "k \<in> {4, 6, 8, 10, 12} \<Longrightarrow> k < length c \<Longrightarrow> Atoi (token (c ! k)) = None \<Longrightarrow>
     \<exists>e c'. setSOA X h c = Some (Inl e, c')"
  by (auto simp: numeral_eq_Suc Suc_lt_length neq_Nil_conv setSOA_def soa_loop_cons
      soa_loop_bad split: option.splits)

lemmas token_defs = str_def blank_def newline_def eof_def

lemmas type_defs = TypeA_def TypeAAAA_def TypeNS_def TypeMX_def TypeCNAME_def TypeSOA_def
  TypeRRSIG_def TypeNSEC_def TypeNSEC3_def TypeTXT_def

lemmas run_simps = token_defs type_defs sample_collab_def Atoi_def is_digit_def ToUpper_def
  upper_char_def char_of_def bit_0

lemma setMX_fields:
  "Atoi (token p) = Some i \<Longrightarrow> IsDomainName X (token n) \<Longrightarrow>
   setMX X h (p # s1 # n # c) = Some (Inr (RR_MX h (word_of_int i) (token n)), c)"
  by (simp add: setMX_def)

lemma setSOA_fields:
  "IsDomainName X (token ns) \<Longrightarrow> IsDomainName X (token mb) \<Longrightarrow>
   Atoi (token n1) = Some i1 \<Longrightarrow> Atoi (token n2) = Some i2 \<Longrightarrow> Atoi (token n3) = Some i3 \<Longrightarrow>
   Atoi (token n4) = Some i4 \<Longrightarrow> Atoi (token n5) = Some i5 \<Longrightarrow>
   setSOA X h (ns # s1 # mb # s2 # n1 # s3 # n2 # s4 # n3 # s5 # n4 # s6 # n5 # s7 # c)
     = Some (Inr (RR_SOA h (token ns) (token mb) (word_of_int i1) (word_of_int i2)
                    (word_of_int i3) (word_of_int i4) (word_of_int i5)), c)"
  by (simp add: setSOA_def soa_loop_cons soa_loop_done)

section \<open>The scan loops on a well-formed tail\<close>

lemma txt_loop_tail:
  "\<forall>t \<in> set ts. lvalue t = STRING \<or> lvalue t = BLANK \<Longrightarrow>
   lvalue e = NEWLINE \<or> lvalue e = EOF \<Longrightarrow>
   txt_loop s (ts @ e # rest) = Some (Inr (s @ concat (map token ts)), rest)"
  by (induction ts arbitrary: s) auto

lemma rrsig_loop_tail:
  "\<forall>t \<in> set ts. lvalue t = STRING \<or> lvalue t = BLANK \<Longrightarrow>
   lvalue e = NEWLINE \<or> lvalue e = EOF \<Longrightarrow>
   rrsig_loop s (ts @ e # rest)
     = Some (Inr (s @ concat (map token (filter (\<lambda>t. lvalue t = STRING) ts))), rest)"
  by (induction ts arbitrary: s) auto

lemma nsec_loop_tail:
  "\<forall>t \<in> set ts. lvalue t = STRING \<or> lvalue t = BLANK \<Longrightarrow>
   \<forall>t \<in> set ts. lvalue t = STRING \<longrightarrow> Str_rr X (ToUpper (token t)) \<noteq> None \<Longrightarrow>
   lvalue e = NEWLINE \<or> lvalue e = EOF \<Longrightarrow>
   nsec_loop X bm (ts @ e # rest)
     = Some (Inr (bm @ map (\<lambda>t. the (Str_rr X (ToUpper (token t))))
                         (filter (\<lambda>t. lvalue t = STRING) ts)), rest)"
  by (induction ts arbitrary: bm) auto

lemma nsec3_loop_tail:
  "\<forall>t \<in> set ts. lvalue t = STRING \<or> lvalue t = BLANK \<Longrightarrow>
   \<forall>t \<in> set ts. lvalue t = STRING \<longrightarrow> Str_rr X (ToUpper (token t)) \<noteq> None \<Longrightarrow>
   lvalue e = NEWLINE \<or> lvalue e = EOF \<Longrightarrow>
   nsec3_loop X bm (ts @ e # rest)
     = Some (Inr (bm @ map (\<lambda>t. the (Str_rr X (ToUpper (token t))))
                         (filter (\<lambda>t. lvalue t = STRING) ts)), rest)"
  by (induction ts arbitrary: bm) auto

lemma setRRSIG_leading:
  "Str_rr X (ToUpper (token t0)) = Some tc \<Longrightarrow> Atoi (token t1) = Some alg \<Longrightarrow>
   Atoi (token t2) = Some lab \<Longrightarrow> Atoi (token t3) = Some ottl \<Longrightarrow>
   dateToTime X (token t4) = Some exp \<Longrightarrow> dateToTime X (token t5) = Some inc \<Longrightarrow>
   Atoi (token t6) = Some tag \<Longrightarrow> IsDomainName X (token t7) \<Longrightarrow>
   setRRSIG X h (t0 # s0 # t1 # s1 # t2 # s2 # t3 # s3 # t4 # s4 # t5 # s5 # t6 # s6 # t7 # c)
     = (case rrsig_loop [] c of
          None \<Rightarrow> None
        | Some (Inl e, c') \<Rightarrow> Some (Inl e, c')
        | Some (Inr s, c') \<Rightarrow>
            Some (Inr (RR_RRSIG h tc (word_of_int alg) (word_of_int lab) (word_of_int ottl)
                         exp inc (word_of_int tag) (token t7) s), c'))"
  by (simp add: setRRSIG_def)

lemma setNSEC3_leading:
  "Atoi (token t0) = Some hash \<Longrightarrow> Atoi (token t1) = Some flags \<Longrightarrow>
   Atoi (token t2) = Some iter \<Longrightarrow>
   setNSEC3 X h (t0 # s0 # t1 # s1 # t2 # s2 # salt # s3 # nd # c)
     = (case nsec3_loop X [] c of
          None \<Rightarrow> None
        | Some (Inl e, c') \<Rightarrow> Some (Inl e, c')
        | Some (Inr bm, c') \<Rightarrow>
            Some (Inr (RR_NSEC3 h (word_of_int hash) (word_of_int flags) (word_of_int iter)
                         (of_nat (length (token salt))) (token salt)
                         (of_nat (length (token nd))) (token nd) bm), c'))"
  by (simp add: setNSEC3_def)

lemma setNSEC_leading:
  "IsDomainName X (token d) \<Longrightarrow>
   setNSEC X h (d # c)
     = (case nsec_loop X [] c of
          None \<Rightarrow> None
        | Some (Inl e, c') \<Rightarrow> Some (Inl e, c')
        | Some (Inr bm, c') \<Rightarrow> Some (Inr (RR_NSEC h (token d) bm), c'))"
  by (simp add: setNSEC_def)

section \<open>Runs of the collaborators\<close>

lemma sample_lookup:
  "Str_rr sample_collab (ToUpper ''a'') = Some 1"
  "Str_rr sample_collab (ToUpper ''A'') = Some 1"
  "Str_rr sample_collab (ToUpper ''MX'') = Some 15"
  "Str_rr sample_collab (ToUpper ''mx'') = Some 15"
  "Str_rr sample_collab (ToUpper ''bogus'') = None"
  by (simp_all add: run_simps)

lemma sample_domain:
  "IsDomainName sample_collab ''example.org.''"
  "\<not> IsDomainName sample_collab ''bad name''"
  by (simp_all add: sample_collab_def)

lemma sample_date:
  "dateToTime sample_collab ''20110101000000'' = Some 20110101000000"
  "dateToTime sample_collab ''20100101000000'' = Some 20100101000000"
  by (simp_all add: sample_collab_def is_digit_def)

lemma sample_Atoi:
  "Atoi ''5'' = Some 5" "Atoi ''2'' = Some 2" "Atoi ''3600'' = Some 3600"
  "Atoi ''12345'' = Some 12345" "Atoi ''1'' = Some 1" "Atoi ''0'' = Some 0"
  "Atoi ''10'' = Some 10"
  by (simp_all add: Atoi_def is_digit_def)

section \<open>The decode rule of numeric fields\<close>

lemma setRRSIG_record:
  "Str_rr X (ToUpper (token t0)) = Some tc \<Longrightarrow> Atoi (token t1) = Some alg \<Longrightarrow>
   Atoi (token t2) = Some lab \<Longrightarrow> Atoi (token t3) = Some ottl \<Longrightarrow>
   dateToTime X (token t4) = Some exp \<Longrightarrow> dateToTime X (token t5) = Some inc \<Longrightarrow>
   Atoi (token t6) = Some tag \<Longrightarrow> IsDomainName X (token t7) \<Longrightarrow>
   \<forall>t \<in> set ts. lvalue t = STRING \<or> lvalue t = BLANK \<Longrightarrow>
   lvalue e = NEWLINE \<or> lvalue e = EOF \<Longrightarrow>
   setRRSIG X h
       (t0 # q0 # t1 # q1 # t2 # q2 # t3 # q3 # t4 # q4 # t5 # q5 # t6 # q6 # t7
          # ts @ e # rest)
     = Some (Inr (RR_RRSIG h tc (word_of_int alg) (word_of_int lab) (word_of_int ottl)
                    exp inc (word_of_int tag) (token t7)
                    (concat (map token (filter (\<lambda>t. lvalue t = STRING) ts)))), rest)"
  using rrsig_loop_tail [of ts e "[]" rest] by (simp add: setRRSIG_leading)

lemma setNSEC3_record:
  "Atoi (token m0) = Some hash \<Longrightarrow> Atoi (token m1) = Some flags \<Longrightarrow>
   Atoi (token m2) = Some iter \<Longrightarrow>
   \<forall>t \<in> set ts. lvalue t = STRING \<or> lvalue t = BLANK \<Longrightarrow>
   \<forall>t \<in> set ts. lvalue t = STRING \<longrightarrow> Str_rr X (ToUpper (token t)) \<noteq> None \<Longrightarrow>
   lvalue e = NEWLINE \<or> lvalue e = EOF \<Longrightarrow>
   setNSEC3 X h (m0 # b0 # m1 # b1 # m2 # b2 # salt # b3 # nd # ts @ e # rest)
     = Some (Inr (RR_NSEC3 h (word_of_int hash) (word_of_int flags) (word_of_int iter)
                    (of_nat (length (token salt))) (token salt)
                    (of_nat (length (token nd))) (token nd)
                    (map (\<lambda>t. the (Str_rr X (ToUpper (token t))))
                         (filter (\<lambda>t. lvalue t = STRING) ts))), rest)"
  using nsec3_loop_tail [of ts X e "[]" rest] by (simp add: setNSEC3_leading)

text \<open>
  C1, as amended. A numeric field is decoded by \<^verbatim>\<open>strconv.Atoi\<close> and then converted to
  the width of the field, with no range check. A token that \<^verbatim>\<open>Atoi\<close> rejects at the
  position of a numeric field (\<open>k\<close>, counted from the first token of the rdata) makes
  the grammar return an error; when the grammar returns a record, \<^verbatim>\<open>Atoi\<close> accepted
  every numeric token and each field holds the value cut to the width of the field
  (\<open>word_of_int\<close>). And whenever \<^verbatim>\<open>Atoi\<close> accepts the numeric tokens and the other
  fields are valid, the grammar does return the record, with every numeric field equal
  to the accepted value cut to its width, whatever that value is: a negative or too
  large value is stored wrapped around, not refused.
\<close>

theorem numeric_fields_atoi_then_wrap:
  "(0 < length c \<and> Atoi (token (c ! 0)) = None \<longrightarrow> (\<exists>e c'. setMX X h c = Some (Inl e, c')))
   \<and> (setMX X h c = Some (Inr r, c') \<longrightarrow>
        (\<exists>i. Atoi (token (c ! 0)) = Some i \<and> Pref r = word_of_int i))
   \<and> (k \<in> {4, 6, 8, 10, 12} \<and> k < length c \<and> Atoi (token (c ! k)) = None \<longrightarrow>
        (\<exists>e c'. setSOA X h c = Some (Inl e, c')))
   \<and> (setSOA X h c = Some (Inr r, c') \<longrightarrow>
        (\<exists>i1 i2 i3 i4 i5.
           Atoi (token (c ! 4)) = Some i1 \<and> Serial r = word_of_int i1
           \<and> Atoi (token (c ! 6)) = Some i2 \<and> Refresh r = word_of_int i2
           \<and> Atoi (token (c ! 8)) = Some i3 \<and> Retry r = word_of_int i3
           \<and> Atoi (token (c ! 10)) = Some i4 \<and> Expire r = word_of_int i4
           \<and> Atoi (token (c ! 12)) = Some i5 \<and> Minttl r = word_of_int i5))
   \<and> (k \<in> {2, 4, 6, 12} \<and> k < length c \<and> Atoi (token (c ! k)) = None \<longrightarrow>
        (\<exists>e c'. setRRSIG X h c = Some (Inl e, c')))
   \<and> (setRRSIG X h c = Some (Inr r, c') \<longrightarrow>
        (\<exists>i1 i2 i3 i4.
           Atoi (token (c ! 2)) = Some i1 \<and> Algorithm r = word_of_int i1
           \<and> Atoi (token (c ! 4)) = Some i2 \<and> Labels r = word_of_int i2
           \<and> Atoi (token (c ! 6)) = Some i3 \<and> OrigTtl r = word_of_int i3
           \<and> Atoi (token (c ! 12)) = Some i4 \<and> KeyTag r = word_of_int i4))
   \<and> (k \<in> {0, 2, 4} \<and> k < length c \<and> Atoi (token (c ! k)) = None \<longrightarrow>
        (\<exists>e c'. setNSEC3 X h c = Some (Inl e, c')))
   \<and> (setNSEC3 X h c = Some (Inr r, c') \<longrightarrow>
        (\<exists>i1 i2 i3.
           Atoi (token (c ! 0)) = Some i1 \<and> Hash r = word_of_int i1
           \<and> Atoi (token (c ! 2)) = Some i2 \<and> Flags r = word_of_int i2
           \<and> Atoi (token (c ! 4)) = Some i3 \<and> Iterations r = word_of_int i3))
   \<and> (Atoi (token p) = Some i \<and> IsDomainName X (token n) \<longrightarrow>
        setMX X h (p # s1 # n # rest) = Some (Inr (RR_MX h (word_of_int i) (token n)), rest))
   \<and> (IsDomainName X (token ns) \<and> IsDomainName X (token mb)
        \<and> Atoi (token n1) = Some j1 \<and> Atoi (token n2) = Some j2 \<and> Atoi (token n3) = Some j3
        \<and> Atoi (token n4) = Some j4 \<and> Atoi (token n5) = Some j5 \<longrightarrow>
        setSOA X h
            (ns # s1 # mb # s2 # n1 # s3 # n2 # s4 # n3 # s5 # n4 # s6 # n5 # s7 # rest)
          = Some (Inr (RR_SOA h (token ns) (token mb) (word_of_int j1) (word_of_int j2)
                         (word_of_int j3) (word_of_int j4) (word_of_int j5)), rest))
   \<and> (Str_rr X (ToUpper (token t0)) = Some tc \<and> Atoi (token t1) = Some alg
        \<and> Atoi (token t2) = Some lab \<and> Atoi (token t3) = Some ottl
        \<and> dateToTime X (token t4) = Some exp \<and> dateToTime X (token t5) = Some inc
        \<and> Atoi (token t6) = Some tag \<and> IsDomainName X (token t7)
        \<and> (\<forall>t \<in> set ts. lvalue t = STRING \<or> lvalue t = BLANK)
        \<and> (lvalue e = NEWLINE \<or> lvalue e = EOF) \<longrightarrow>
        setRRSIG X h
            (t0 # q0 # t1 # q1 # t2 # q2 # t3 # q3 # t4 # q4 # t5 # q5 # t6 # q6 # t7
               # ts @ e # rest)
          = Some (Inr (RR_RRSIG h tc (word_of_int alg) (word_of_int lab) (word_of_int ottl)
                         exp inc (word_of_int tag) (token t7)
                         (concat (map token (filter (\<lambda>t. lvalue t = STRING) ts)))), rest))
   \<and> (Atoi (token m0) = Some hash \<and> Atoi (token m1) = Some flags
        \<and> Atoi (token m2) = Some iter
        \<and> (\<forall>t \<in> set ts. lvalue t = STRING \<or> lvalue t = BLANK)
        \<and> (\<forall>t \<in> set ts. lvalue t = STRING \<longrightarrow> Str_rr X (ToUpper (token t)) \<noteq> None)
        \<and> (lvalue e = NEWLINE \<or> lvalue e = EOF) \<longrightarrow>
        setNSEC3 X h (m0 # b0 # m1 # b1 # m2 # b2 # salt # b3 # nd # ts @ e # rest)
          = Some (Inr (RR_NSEC3 h (word_of_int hash) (word_of_int flags) (word_of_int iter)
                         (of_nat (length (token salt))) (token salt)
                         (of_nat (length (token nd))) (token nd)
                         (map (\<lambda>t. the (Str_rr X (ToUpper (token t))))
                              (filter (\<lambda>t. lvalue t = STRING) ts))), rest))"
proof -
  have old: "(0 < length c \<and> Atoi (token (c ! 0)) = None \<longrightarrow> (\<exists>e c'. setMX X h c = Some (Inl e, c')))
   \<and> (setMX X h c = Some (Inr r, c') \<longrightarrow>
        (\<exists>i. Atoi (token (c ! 0)) = Some i \<and> Pref r = word_of_int i))
   \<and> (k \<in> {4, 6, 8, 10, 12} \<and> k < length c \<and> Atoi (token (c ! k)) = None \<longrightarrow>
        (\<exists>e c'. setSOA X h c = Some (Inl e, c')))
   \<and> (setSOA X h c = Some (Inr r, c') \<longrightarrow>
        (\<exists>i1 i2 i3 i4 i5.
           Atoi (token (c ! 4)) = Some i1 \<and> Serial r = word_of_int i1
           \<and> Atoi (token (c ! 6)) = Some i2 \<and> Refresh r = word_of_int i2
           \<and> Atoi (token (c ! 8)) = Some i3 \<and> Retry r = word_of_int i3
           \<and> Atoi (token (c ! 10)) = Some i4 \<and> Expire r = word_of_int i4
           \<and> Atoi (token (c ! 12)) = Some i5 \<and> Minttl r = word_of_int i5))
   \<and> (k \<in> {2, 4, 6, 12} \<and> k < length c \<and> Atoi (token (c ! k)) = None \<longrightarrow>
        (\<exists>e c'. setRRSIG X h c = Some (Inl e, c')))
   \<and> (setRRSIG X h c = Some (Inr r, c') \<longrightarrow>
        (\<exists>i1 i2 i3 i4.
           Atoi (token (c ! 2)) = Some i1 \<and> Algorithm r = word_of_int i1
           \<and> Atoi (token (c ! 4)) = Some i2 \<and> Labels r = word_of_int i2
           \<and> Atoi (token (c ! 6)) = Some i3 \<and> OrigTtl r = word_of_int i3
           \<and> Atoi (token (c ! 12)) = Some i4 \<and> KeyTag r = word_of_int i4))
   \<and> (k \<in> {0, 2, 4} \<and> k < length c \<and> Atoi (token (c ! k)) = None \<longrightarrow>
        (\<exists>e c'. setNSEC3 X h c = Some (Inl e, c')))
   \<and> (setNSEC3 X h c = Some (Inr r, c') \<longrightarrow>
        (\<exists>i1 i2 i3.
           Atoi (token (c ! 0)) = Some i1 \<and> Hash r = word_of_int i1
           \<and> Atoi (token (c ! 2)) = Some i2 \<and> Flags r = word_of_int i2
           \<and> Atoi (token (c ! 4)) = Some i3 \<and> Iterations r = word_of_int i3))"
    using setMX_bad_number [of c X h] setMX_Inr [of X h c r c']
      setSOA_bad_number [of k c X h] setSOA_Inr [of X h c r c']
      setRRSIG_bad_number [of k c X h] setRRSIG_Inr [of X h c r c']
      setNSEC3_bad_number [of k c X h] setNSEC3_Inr [of X h c r c']
    by blast
  have mx: "Atoi (token p) = Some i \<and> IsDomainName X (token n) \<longrightarrow>
        setMX X h (p # s1 # n # rest) = Some (Inr (RR_MX h (word_of_int i) (token n)), rest)"
    by (simp add: setMX_fields)
  have soa: "IsDomainName X (token ns) \<and> IsDomainName X (token mb)
        \<and> Atoi (token n1) = Some j1 \<and> Atoi (token n2) = Some j2 \<and> Atoi (token n3) = Some j3
        \<and> Atoi (token n4) = Some j4 \<and> Atoi (token n5) = Some j5 \<longrightarrow>
        setSOA X h
            (ns # s1 # mb # s2 # n1 # s3 # n2 # s4 # n3 # s5 # n4 # s6 # n5 # s7 # rest)
          = Some (Inr (RR_SOA h (token ns) (token mb) (word_of_int j1) (word_of_int j2)
                         (word_of_int j3) (word_of_int j4) (word_of_int j5)), rest)"
    by (simp add: setSOA_fields)
  have sig: "Str_rr X (ToUpper (token t0)) = Some tc \<and> Atoi (token t1) = Some alg
        \<and> Atoi (token t2) = Some lab \<and> Atoi (token t3) = Some ottl
        \<and> dateToTime X (token t4) = Some exp \<and> dateToTime X (token t5) = Some inc
        \<and> Atoi (token t6) = Some tag \<and> IsDomainName X (token t7)
        \<and> (\<forall>t \<in> set ts. lvalue t = STRING \<or> lvalue t = BLANK)
        \<and> (lvalue e = NEWLINE \<or> lvalue e = EOF) \<longrightarrow>
        setRRSIG X h
            (t0 # q0 # t1 # q1 # t2 # q2 # t3 # q3 # t4 # q4 # t5 # q5 # t6 # q6 # t7
               # ts @ e # rest)
          = Some (Inr (RR_RRSIG h tc (word_of_int alg) (word_of_int lab) (word_of_int ottl)
                         exp inc (word_of_int tag) (token t7)
                         (concat (map token (filter (\<lambda>t. lvalue t = STRING) ts)))), rest)"
    using setRRSIG_record [of X t0 tc t1 alg t2 lab t3 ottl t4 exp t5 inc t6 tag t7 ts e h
        q0 q1 q2 q3 q4 q5 q6 rest]
    by blast
  have n3: "Atoi (token m0) = Some hash \<and> Atoi (token m1) = Some flags
        \<and> Atoi (token m2) = Some iter
        \<and> (\<forall>t \<in> set ts. lvalue t = STRING \<or> lvalue t = BLANK)
        \<and> (\<forall>t \<in> set ts. lvalue t = STRING \<longrightarrow> Str_rr X (ToUpper (token t)) \<noteq> None)
        \<and> (lvalue e = NEWLINE \<or> lvalue e = EOF) \<longrightarrow>
        setNSEC3 X h (m0 # b0 # m1 # b1 # m2 # b2 # salt # b3 # nd # ts @ e # rest)
          = Some (Inr (RR_NSEC3 h (word_of_int hash) (word_of_int flags) (word_of_int iter)
                         (of_nat (length (token salt))) (token salt)
                         (of_nat (length (token nd))) (token nd)
                         (map (\<lambda>t. the (Str_rr X (ToUpper (token t))))
                              (filter (\<lambda>t. lvalue t = STRING) ts))), rest)"
    using setNSEC3_record [of m0 hash m1 flags m2 iter ts X e h b0 b1 b2 salt b3 nd rest]
    by blast
  from old mx soa sig n3 show ?thesis by (intro conjI) blast+
qed

lemma run_MX_wrap:
  "setMX sample_collab (hdr TypeMX) [str ''70000'', blank, str ''mx.example.org.'', newline]
     = Some (Inr (RR_MX (hdr TypeMX) 4464 ''mx.example.org.''), [newline])"
  by (simp add: setMX_def run_simps)

lemma run_NSEC3_wrap:
  "setNSEC3 sample_collab (hdr TypeNSEC3)
      [str ''-1'', blank, str ''256'', blank, str ''65536'', blank, str ''abcd'', blank,
       str ''hash'', newline]
     = Some (Inr (RR_NSEC3 (hdr TypeNSEC3) 255 0 0 4 ''abcd'' 4 ''hash'' []), [])"
  by (simp add: setNSEC3_def run_simps)

text \<open>
  C1 as stated fails: the texts below do not fit the width of their fields, and the
  grammars return a record with the value wrapped.
\<close>

theorem numeric_fields_counterexample:
  "\<not> spec_fits_unsigned 16 ''70000''
   \<and> setMX sample_collab (hdr TypeMX) [str ''70000'', blank, str ''mx.example.org.'', newline]
       = Some (Inr (RR_MX (hdr TypeMX) 4464 ''mx.example.org.''), [newline])
   \<and> \<not> spec_fits_unsigned 8 ''-1'' \<and> \<not> spec_fits_unsigned 8 ''256''
   \<and> \<not> spec_fits_unsigned 16 ''65536''
   \<and> setNSEC3 sample_collab (hdr TypeNSEC3)
        [str ''-1'', blank, str ''256'', blank, str ''65536'', blank, str ''abcd'', blank,
         str ''hash'', newline]
       = Some (Inr (RR_NSEC3 (hdr TypeNSEC3) 255 0 0 4 ''abcd'' 4 ''hash'' []), [])"
  by (simp add: run_MX_wrap run_NSEC3_wrap spec_fits_unsigned_def is_digit_def)


lemma run_SOA_blank_newline:
  "setSOA sample_collab (hdr TypeSOA)
      [str ''ns.example.org.'', blank, str ''admin.example.org.'', blank,
       str ''4294967297'', blank, str ''7200'', blank, str ''3600'', blank,
       str ''1209600'', blank, str ''-1'', blank, newline]
     = Some (Inr (RR_SOA (hdr TypeSOA) ''ns.example.org.'' ''admin.example.org.''
                    1 7200 3600 1209600 4294967295), [newline])"
  by (simp add: setSOA_def soa_loop_cons soa_loop_done run_simps)

lemma run_RRSIG_wrap:
  "setRRSIG sample_collab (hdr TypeRRSIG)
      [str ''a'', blank, str ''261'', blank, str ''2'', blank, str ''4294967296'', blank,
       str ''20110101000000'', blank, str ''20100101000000'', blank, str ''65537'', blank,
       str ''example.org.'', blank, str ''abc'', newline]
     = Some (Inr (RR_RRSIG (hdr TypeRRSIG) 1 5 2 0 20110101000000 20100101000000 1
                    ''example.org.'' ''abc''), [])"
  by (simp add: setRRSIG_def run_simps)



theorem numeric_fields_atoi_then_wrap_witness:
  "(setMX sample_collab (hdr TypeMX) [str ''70000'', blank, str ''mx.example.org.'', newline]
     = Some (Inr (RR_MX (hdr TypeMX) 4464 ''mx.example.org.''), [newline]))
   \<and> (\<exists>i. Atoi ''70000'' = Some i \<and> Pref (RR_MX (hdr TypeMX) 4464 ''mx.example.org.'') = word_of_int i)
   \<and> (\<exists>e c'. setMX sample_collab (hdr TypeMX) [str ''1x'', blank, str ''mx.example.org.'']
         = Some (Inl e, c'))
   \<and> (setSOA sample_collab (hdr TypeSOA)
      [str ''ns.example.org.'', blank, str ''admin.example.org.'', blank,
       str ''4294967297'', blank, str ''7200'', blank, str ''3600'', blank,
       str ''1209600'', blank, str ''-1'', blank, newline]
     = Some (Inr (RR_SOA (hdr TypeSOA) ''ns.example.org.'' ''admin.example.org.''
          1 7200 3600 1209600 4294967295), [newline]))
   \<and> (\<exists>i. Atoi ''-1'' = Some i
        \<and> Minttl (RR_SOA (hdr TypeSOA) ''ns.example.org.'' ''admin.example.org.''
          1 7200 3600 1209600 4294967295) = word_of_int i)
   \<and> (\<exists>e c'. setSOA sample_collab (hdr TypeSOA)
           [str ''ns.example.org.'', blank, str ''admin.example.org.'', blank,
            str ''1'', blank, str ''two'', blank] = Some (Inl e, c'))
   \<and> (setRRSIG sample_collab (hdr TypeRRSIG)
      [str ''a'', blank, str ''261'', blank, str ''2'', blank, str ''4294967296'', blank,
       str ''20110101000000'', blank, str ''20100101000000'', blank, str ''65537'', blank,
       str ''example.org.'', blank, str ''abc'', newline]
     = Some (Inr (RR_RRSIG (hdr TypeRRSIG) 1 5 2 0 20110101000000 20100101000000 1
          ''example.org.'' ''abc''), []))
   \<and> (\<exists>i. Atoi ''261'' = Some i
        \<and> Algorithm (RR_RRSIG (hdr TypeRRSIG) 1 5 2 0 20110101000000 20100101000000 1
          ''example.org.'' ''abc'') = word_of_int i)
   \<and> (\<exists>e c'. setRRSIG sample_collab (hdr TypeRRSIG) [str ''a'', blank, str ''x5'']
         = Some (Inl e, c'))
   \<and> (setNSEC3 sample_collab (hdr TypeNSEC3)
      [str ''-1'', blank, str ''256'', blank, str ''65536'', blank, str ''abcd'', blank,
       str ''hash'', newline]
     = Some (Inr (RR_NSEC3 (hdr TypeNSEC3) 255 0 0 4 ''abcd'' 4 ''hash'' []), []))
   \<and> (\<exists>i. Atoi ''65536'' = Some i
        \<and> Iterations (RR_NSEC3 (hdr TypeNSEC3) 255 0 0 4 ''abcd'' 4 ''hash'' []) = word_of_int i)
   \<and> (\<exists>e c'. setNSEC3 sample_collab (hdr TypeNSEC3) [str ''1'', blank, str ''0x1'']
         = Some (Inl e, c'))"
proof -
  have bad: "Atoi ''1x'' = None" "Atoi ''two'' = None" "Atoi ''x5'' = None" "Atoi ''0x1'' = None"
    by (simp_all add: Atoi_def is_digit_def)
  have num: "Atoi ''70000'' = Some 70000" "Atoi ''4294967297'' = Some 4294967297"
    "Atoi ''7200'' = Some 7200" "Atoi ''3600'' = Some 3600" "Atoi ''1209600'' = Some 1209600"
    "Atoi ''-1'' = Some (- 1)" "Atoi ''261'' = Some 261" "Atoi ''2'' = Some 2"
    "Atoi ''4294967296'' = Some 4294967296" "Atoi ''65537'' = Some 65537"
    "Atoi ''256'' = Some 256" "Atoi ''65536'' = Some 65536"
    by (simp_all add: Atoi_def is_digit_def)
  have dom: "IsDomainName sample_collab ''mx.example.org.''"
    "IsDomainName sample_collab ''ns.example.org.''"
    "IsDomainName sample_collab ''admin.example.org.''"
    by (simp_all add: sample_collab_def)
  have mx_run: "setMX sample_collab (hdr TypeMX) [str ''70000'', blank, str ''mx.example.org.'', newline]
     = Some (Inr (RR_MX (hdr TypeMX) 4464 ''mx.example.org.''), [newline])"
    using numeric_fields_atoi_then_wrap
      [where X = sample_collab and h = "hdr TypeMX" and p = "str ''70000''" and i = 70000
         and n = "str ''mx.example.org.''" and ?s1.0 = blank and rest = "[newline]",
       THEN conjunct2, THEN conjunct2, THEN conjunct2, THEN conjunct2, THEN conjunct2, THEN conjunct2, THEN conjunct2, THEN conjunct2, THEN conjunct1]
      num dom
    by (simp add: str_def)
  have "\<exists>i. Atoi (token ([str ''70000'', blank, str ''mx.example.org.'', newline] ! 0)) = Some i
          \<and> Pref (RR_MX (hdr TypeMX) 4464 ''mx.example.org.'') = word_of_int i"
    using numeric_fields_atoi_then_wrap
      [where X = sample_collab and h = "hdr TypeMX"
         and c = "[str ''70000'', blank, str ''mx.example.org.'', newline]"
         and r = "RR_MX (hdr TypeMX) 4464 ''mx.example.org.''" and c' = "[newline]",
       THEN conjunct2, THEN conjunct1]
      mx_run
    by blast
  then have mx_val: "\<exists>i. Atoi ''70000'' = Some i \<and> Pref (RR_MX (hdr TypeMX) 4464 ''mx.example.org.'') = word_of_int i"
    by (simp add: str_def)
  have mx_err: "\<exists>e c'. setMX sample_collab (hdr TypeMX) [str ''1x'', blank, str ''mx.example.org.'']
         = Some (Inl e, c')"
    using numeric_fields_atoi_then_wrap
      [where X = sample_collab and h = "hdr TypeMX"
         and c = "[str ''1x'', blank, str ''mx.example.org.'']", THEN conjunct1] bad
    by (simp add: str_def)
  have soa_run: "setSOA sample_collab (hdr TypeSOA)
      [str ''ns.example.org.'', blank, str ''admin.example.org.'', blank,
       str ''4294967297'', blank, str ''7200'', blank, str ''3600'', blank,
       str ''1209600'', blank, str ''-1'', blank, newline]
     = Some (Inr (RR_SOA (hdr TypeSOA) ''ns.example.org.'' ''admin.example.org.''
          1 7200 3600 1209600 4294967295), [newline])"
    using numeric_fields_atoi_then_wrap
      [where X = sample_collab and h = "hdr TypeSOA" and ns = "str ''ns.example.org.''"
         and mb = "str ''admin.example.org.''" and ?n1.0 = "str ''4294967297''"
         and ?j1.0 = 4294967297 and ?n2.0 = "str ''7200''" and ?j2.0 = 7200
         and ?n3.0 = "str ''3600''" and ?j3.0 = 3600 and ?n4.0 = "str ''1209600''"
         and ?j4.0 = 1209600 and ?n5.0 = "str ''-1''" and ?j5.0 = "- 1"
         and ?s1.0 = blank and ?s2.0 = blank and ?s3.0 = blank and ?s4.0 = blank
         and ?s5.0 = blank and ?s6.0 = blank and ?s7.0 = blank and rest = "[newline]",
       THEN conjunct2, THEN conjunct2, THEN conjunct2, THEN conjunct2, THEN conjunct2, THEN conjunct2, THEN conjunct2, THEN conjunct2, THEN conjunct2, THEN conjunct1]
      num dom
    by (simp add: str_def)
  have "\<exists>i1 i2 i3 i4 i5.
           Atoi (token ([str ''ns.example.org.'', blank, str ''admin.example.org.'', blank,
       str ''4294967297'', blank, str ''7200'', blank, str ''3600'', blank,
       str ''1209600'', blank, str ''-1'', blank, newline] ! 4)) = Some i1
           \<and> Serial (RR_SOA (hdr TypeSOA) ''ns.example.org.'' ''admin.example.org.''
          1 7200 3600 1209600 4294967295) = word_of_int i1
           \<and> Atoi (token ([str ''ns.example.org.'', blank, str ''admin.example.org.'', blank,
       str ''4294967297'', blank, str ''7200'', blank, str ''3600'', blank,
       str ''1209600'', blank, str ''-1'', blank, newline] ! 6)) = Some i2
           \<and> Refresh (RR_SOA (hdr TypeSOA) ''ns.example.org.'' ''admin.example.org.''
          1 7200 3600 1209600 4294967295) = word_of_int i2
           \<and> Atoi (token ([str ''ns.example.org.'', blank, str ''admin.example.org.'', blank,
       str ''4294967297'', blank, str ''7200'', blank, str ''3600'', blank,
       str ''1209600'', blank, str ''-1'', blank, newline] ! 8)) = Some i3
           \<and> Retry (RR_SOA (hdr TypeSOA) ''ns.example.org.'' ''admin.example.org.''
          1 7200 3600 1209600 4294967295) = word_of_int i3
           \<and> Atoi (token ([str ''ns.example.org.'', blank, str ''admin.example.org.'', blank,
       str ''4294967297'', blank, str ''7200'', blank, str ''3600'', blank,
       str ''1209600'', blank, str ''-1'', blank, newline] ! 10)) = Some i4
           \<and> Expire (RR_SOA (hdr TypeSOA) ''ns.example.org.'' ''admin.example.org.''
          1 7200 3600 1209600 4294967295) = word_of_int i4
           \<and> Atoi (token ([str ''ns.example.org.'', blank, str ''admin.example.org.'', blank,
       str ''4294967297'', blank, str ''7200'', blank, str ''3600'', blank,
       str ''1209600'', blank, str ''-1'', blank, newline] ! 12)) = Some i5
           \<and> Minttl (RR_SOA (hdr TypeSOA) ''ns.example.org.'' ''admin.example.org.''
          1 7200 3600 1209600 4294967295) = word_of_int i5"
    using numeric_fields_atoi_then_wrap
      [where X = sample_collab and h = "hdr TypeSOA"
         and c = "[str ''ns.example.org.'', blank, str ''admin.example.org.'', blank,
       str ''4294967297'', blank, str ''7200'', blank, str ''3600'', blank,
       str ''1209600'', blank, str ''-1'', blank, newline]"
         and r = "RR_SOA (hdr TypeSOA) ''ns.example.org.'' ''admin.example.org.''
          1 7200 3600 1209600 4294967295" and c' = "[newline]",
       THEN conjunct2, THEN conjunct2, THEN conjunct2, THEN conjunct1]
      soa_run
    by blast
  then obtain i5 where "Atoi (token ([str ''ns.example.org.'', blank, str ''admin.example.org.'', blank,
       str ''4294967297'', blank, str ''7200'', blank, str ''3600'', blank,
       str ''1209600'', blank, str ''-1'', blank, newline] ! 12)) = Some i5"
      "Minttl (RR_SOA (hdr TypeSOA) ''ns.example.org.'' ''admin.example.org.''
          1 7200 3600 1209600 4294967295) = word_of_int i5"
    by blast
  then have "Atoi ''-1'' = Some i5
      \<and> Minttl (RR_SOA (hdr TypeSOA) ''ns.example.org.'' ''admin.example.org.''
          1 7200 3600 1209600 4294967295) = word_of_int i5"
    by (simp add: str_def)
  then have soa_val: "\<exists>i. Atoi ''-1'' = Some i
        \<and> Minttl (RR_SOA (hdr TypeSOA) ''ns.example.org.'' ''admin.example.org.''
          1 7200 3600 1209600 4294967295) = word_of_int i" ..
  have soa_err: "\<exists>e c'. setSOA sample_collab (hdr TypeSOA)
           [str ''ns.example.org.'', blank, str ''admin.example.org.'', blank,
            str ''1'', blank, str ''two'', blank] = Some (Inl e, c')"
    using numeric_fields_atoi_then_wrap
      [where X = sample_collab and h = "hdr TypeSOA" and k = 6
         and c = "[str ''ns.example.org.'', blank, str ''admin.example.org.'', blank,
                   str ''1'', blank, str ''two'', blank]", THEN conjunct2, THEN conjunct2, THEN conjunct1] bad
    by (simp add: str_def)
  have tail1: "\<forall>t \<in> set [blank, str ''abc'']. lvalue t = STRING \<or> lvalue t = BLANK"
    by (simp add: str_def blank_def)
  have nl: "lvalue newline = NEWLINE \<or> lvalue newline = EOF"
    by (simp add: newline_def)
  have "setRRSIG sample_collab (hdr TypeRRSIG)
      (str ''a'' # blank # str ''261'' # blank # str ''2'' # blank # str ''4294967296'' # blank
         # str ''20110101000000'' # blank # str ''20100101000000'' # blank # str ''65537''
         # blank # str ''example.org.'' # [blank, str ''abc''] @ newline # [])
     = Some (Inr (RR_RRSIG (hdr TypeRRSIG) 1 (word_of_int 261) (word_of_int 2)
                    (word_of_int 4294967296) 20110101000000 20100101000000
                    (word_of_int 65537) (token (str ''example.org.''))
                    (concat (map token (filter (\<lambda>t. lvalue t = STRING)
                       [blank, str ''abc''])))), [])"
    using numeric_fields_atoi_then_wrap
      [where X = sample_collab and h = "hdr TypeRRSIG" and ?t0.0 = "str ''a''" and tc = 1
         and ?t1.0 = "str ''261''" and alg = 261 and ?t2.0 = "str ''2''" and lab = 2
         and ?t3.0 = "str ''4294967296''" and ottl = 4294967296
         and ?t4.0 = "str ''20110101000000''" and exp = 20110101000000
         and ?t5.0 = "str ''20100101000000''" and inc = 20100101000000
         and ?t6.0 = "str ''65537''" and tag = 65537 and ?t7.0 = "str ''example.org.''"
         and ?q0.0 = blank and ?q1.0 = blank and ?q2.0 = blank and ?q3.0 = blank
         and ?q4.0 = blank and ?q5.0 = blank and ?q6.0 = blank
         and ts = "[blank, str ''abc'']" and e = newline and rest = "[]",
       THEN conjunct2, THEN conjunct2, THEN conjunct2, THEN conjunct2, THEN conjunct2, THEN conjunct2, THEN conjunct2, THEN conjunct2, THEN conjunct2, THEN conjunct2, THEN conjunct1]
      num tail1 nl sample_lookup sample_domain sample_date
    by (simp add: str_def)
  then have sig_run: "setRRSIG sample_collab (hdr TypeRRSIG)
      [str ''a'', blank, str ''261'', blank, str ''2'', blank, str ''4294967296'', blank,
       str ''20110101000000'', blank, str ''20100101000000'', blank, str ''65537'', blank,
       str ''example.org.'', blank, str ''abc'', newline]
     = Some (Inr (RR_RRSIG (hdr TypeRRSIG) 1 5 2 0 20110101000000 20100101000000 1
          ''example.org.'' ''abc''), [])"
    by (simp add: str_def blank_def)
  have "\<exists>i1 i2 i3 i4.
           Atoi (token ([str ''a'', blank, str ''261'', blank, str ''2'', blank, str ''4294967296'', blank,
       str ''20110101000000'', blank, str ''20100101000000'', blank, str ''65537'', blank,
       str ''example.org.'', blank, str ''abc'', newline] ! 2)) = Some i1
           \<and> Algorithm (RR_RRSIG (hdr TypeRRSIG) 1 5 2 0 20110101000000 20100101000000 1
          ''example.org.'' ''abc'') = word_of_int i1
           \<and> Atoi (token ([str ''a'', blank, str ''261'', blank, str ''2'', blank, str ''4294967296'', blank,
       str ''20110101000000'', blank, str ''20100101000000'', blank, str ''65537'', blank,
       str ''example.org.'', blank, str ''abc'', newline] ! 4)) = Some i2
           \<and> Labels (RR_RRSIG (hdr TypeRRSIG) 1 5 2 0 20110101000000 20100101000000 1
          ''example.org.'' ''abc'') = word_of_int i2
           \<and> Atoi (token ([str ''a'', blank, str ''261'', blank, str ''2'', blank, str ''4294967296'', blank,
       str ''20110101000000'', blank, str ''20100101000000'', blank, str ''65537'', blank,
       str ''example.org.'', blank, str ''abc'', newline] ! 6)) = Some i3
           \<and> OrigTtl (RR_RRSIG (hdr TypeRRSIG) 1 5 2 0 20110101000000 20100101000000 1
          ''example.org.'' ''abc'') = word_of_int i3
           \<and> Atoi (token ([str ''a'', blank, str ''261'', blank, str ''2'', blank, str ''4294967296'', blank,
       str ''20110101000000'', blank, str ''20100101000000'', blank, str ''65537'', blank,
       str ''example.org.'', blank, str ''abc'', newline] ! 12)) = Some i4
           \<and> KeyTag (RR_RRSIG (hdr TypeRRSIG) 1 5 2 0 20110101000000 20100101000000 1
          ''example.org.'' ''abc'') = word_of_int i4"
    using numeric_fields_atoi_then_wrap
      [where X = sample_collab and h = "hdr TypeRRSIG"
         and c = "[str ''a'', blank, str ''261'', blank, str ''2'', blank, str ''4294967296'', blank,
       str ''20110101000000'', blank, str ''20100101000000'', blank, str ''65537'', blank,
       str ''example.org.'', blank, str ''abc'', newline]"
         and r = "RR_RRSIG (hdr TypeRRSIG) 1 5 2 0 20110101000000 20100101000000 1
          ''example.org.'' ''abc''" and c' = "[]",
       THEN conjunct2, THEN conjunct2, THEN conjunct2, THEN conjunct2, THEN conjunct2, THEN conjunct1]
      sig_run
    by blast
  then obtain a1 where "Atoi (token ([str ''a'', blank, str ''261'', blank, str ''2'', blank, str ''4294967296'', blank,
       str ''20110101000000'', blank, str ''20100101000000'', blank, str ''65537'', blank,
       str ''example.org.'', blank, str ''abc'', newline] ! 2)) = Some a1"
      "Algorithm (RR_RRSIG (hdr TypeRRSIG) 1 5 2 0 20110101000000 20100101000000 1
          ''example.org.'' ''abc'') = word_of_int a1"
    by blast
  then have "Atoi ''261'' = Some a1
      \<and> Algorithm (RR_RRSIG (hdr TypeRRSIG) 1 5 2 0 20110101000000 20100101000000 1
          ''example.org.'' ''abc'') = word_of_int a1"
    by (simp add: str_def)
  then have sig_val: "\<exists>i. Atoi ''261'' = Some i
        \<and> Algorithm (RR_RRSIG (hdr TypeRRSIG) 1 5 2 0 20110101000000 20100101000000 1
          ''example.org.'' ''abc'') = word_of_int i" ..
  have sig_err: "\<exists>e c'. setRRSIG sample_collab (hdr TypeRRSIG) [str ''a'', blank, str ''x5'']
         = Some (Inl e, c')"
    using numeric_fields_atoi_then_wrap
      [where X = sample_collab and h = "hdr TypeRRSIG" and k = 2
         and c = "[str ''a'', blank, str ''x5'']", THEN conjunct2, THEN conjunct2, THEN conjunct2, THEN conjunct2, THEN conjunct1] bad
    by (simp add: str_def)
  have tail0: "\<forall>t \<in> set ([] :: Lex list). lvalue t = STRING \<or> lvalue t = BLANK"
    "\<forall>t \<in> set ([] :: Lex list).
       lvalue t = STRING \<longrightarrow> Str_rr sample_collab (ToUpper (token t)) \<noteq> None"
    by simp_all
  have n3_run: "setNSEC3 sample_collab (hdr TypeNSEC3)
      [str ''-1'', blank, str ''256'', blank, str ''65536'', blank, str ''abcd'', blank,
       str ''hash'', newline]
     = Some (Inr (RR_NSEC3 (hdr TypeNSEC3) 255 0 0 4 ''abcd'' 4 ''hash'' []), [])"
    using numeric_fields_atoi_then_wrap
      [where X = sample_collab and h = "hdr TypeNSEC3" and ?m0.0 = "str ''-1''"
         and hash = "- 1" and ?m1.0 = "str ''256''" and flags = 256
         and ?m2.0 = "str ''65536''" and iter = 65536 and ?b0.0 = blank and ?b1.0 = blank
         and ?b2.0 = blank and salt = "str ''abcd''" and ?b3.0 = blank and nd = "str ''hash''"
         and ts = "[]" and e = newline and rest = "[]",
       THEN conjunct2, THEN conjunct2, THEN conjunct2, THEN conjunct2, THEN conjunct2, THEN conjunct2, THEN conjunct2, THEN conjunct2, THEN conjunct2, THEN conjunct2, THEN conjunct2]
      num tail0 nl
    by (simp add: str_def)
  have "\<exists>i1 i2 i3.
           Atoi (token ([str ''-1'', blank, str ''256'', blank, str ''65536'', blank, str ''abcd'', blank,
       str ''hash'', newline] ! 0)) = Some i1
           \<and> Hash (RR_NSEC3 (hdr TypeNSEC3) 255 0 0 4 ''abcd'' 4 ''hash'' []) = word_of_int i1
           \<and> Atoi (token ([str ''-1'', blank, str ''256'', blank, str ''65536'', blank, str ''abcd'', blank,
       str ''hash'', newline] ! 2)) = Some i2
           \<and> Flags (RR_NSEC3 (hdr TypeNSEC3) 255 0 0 4 ''abcd'' 4 ''hash'' []) = word_of_int i2
           \<and> Atoi (token ([str ''-1'', blank, str ''256'', blank, str ''65536'', blank, str ''abcd'', blank,
       str ''hash'', newline] ! 4)) = Some i3
           \<and> Iterations (RR_NSEC3 (hdr TypeNSEC3) 255 0 0 4 ''abcd'' 4 ''hash'' []) = word_of_int i3"
    using numeric_fields_atoi_then_wrap
      [where X = sample_collab and h = "hdr TypeNSEC3"
         and c = "[str ''-1'', blank, str ''256'', blank, str ''65536'', blank, str ''abcd'', blank,
       str ''hash'', newline]"
         and r = "RR_NSEC3 (hdr TypeNSEC3) 255 0 0 4 ''abcd'' 4 ''hash'' []" and c' = "[]",
       THEN conjunct2, THEN conjunct2, THEN conjunct2, THEN conjunct2, THEN conjunct2, THEN conjunct2, THEN conjunct2, THEN conjunct1]
      n3_run
    by blast
  then obtain a3 where "Atoi (token ([str ''-1'', blank, str ''256'', blank, str ''65536'', blank, str ''abcd'', blank,
       str ''hash'', newline] ! 4)) = Some a3"
      "Iterations (RR_NSEC3 (hdr TypeNSEC3) 255 0 0 4 ''abcd'' 4 ''hash'' []) = word_of_int a3"
    by blast
  then have "Atoi ''65536'' = Some a3
      \<and> Iterations (RR_NSEC3 (hdr TypeNSEC3) 255 0 0 4 ''abcd'' 4 ''hash'' []) = word_of_int a3"
    by (simp add: str_def)
  then have n3_val: "\<exists>i. Atoi ''65536'' = Some i
        \<and> Iterations (RR_NSEC3 (hdr TypeNSEC3) 255 0 0 4 ''abcd'' 4 ''hash'' []) = word_of_int i" ..
  have n3_err: "\<exists>e c'. setNSEC3 sample_collab (hdr TypeNSEC3) [str ''1'', blank, str ''0x1'']
         = Some (Inl e, c')"
    using numeric_fields_atoi_then_wrap
      [where X = sample_collab and h = "hdr TypeNSEC3" and k = 2
         and c = "[str ''1'', blank, str ''0x1'']", THEN conjunct2, THEN conjunct2, THEN conjunct2, THEN conjunct2, THEN conjunct2, THEN conjunct2, THEN conjunct1] bad
    by (simp add: str_def)
  from mx_run mx_val mx_err soa_run soa_val soa_err sig_run sig_val sig_err n3_run n3_val n3_err
  show ?thesis by (intro conjI)
qed

section \<open>Variable-tail grammars at the end of the stream\<close>

text \<open>
  C6, as amended. Let the tail \<open>ts\<close> hold STRING and BLANK tokens only and be followed
  by an EOF token \<open>e\<close>. Then the TXT grammar returns the record and leaves what follows
  \<open>e\<close>; so does the RRSIG grammar after valid leading fields; and so do the NSEC and
  NSEC3 grammars after valid leading fields, provided every STRING token of the tail
  is a mnemonic of the table \<^verbatim>\<open>Str_rr\<close>.
\<close>

theorem variable_tail_ends_on_EOF:
  "(\<forall>t \<in> set ts. lvalue t = STRING \<or> lvalue t = BLANK) \<Longrightarrow> lvalue e = EOF \<Longrightarrow>
   setTXT h (ts @ e # rest) = Some (Inr (RR_TXT h (concat (map token ts))), rest)
   \<and> (Str_rr X (ToUpper (token t0)) = Some tc \<and> Atoi (token t1) = Some alg
        \<and> Atoi (token t2) = Some lab \<and> Atoi (token t3) = Some ottl
        \<and> dateToTime X (token t4) = Some exp \<and> dateToTime X (token t5) = Some inc
        \<and> Atoi (token t6) = Some tag \<and> IsDomainName X (token t7) \<longrightarrow>
      setRRSIG X h
          (t0 # s0 # t1 # s1 # t2 # s2 # t3 # s3 # t4 # s4 # t5 # s5 # t6 # s6 # t7
             # ts @ e # rest)
        = Some (Inr (RR_RRSIG h tc (word_of_int alg) (word_of_int lab) (word_of_int ottl)
                       exp inc (word_of_int tag) (token t7)
                       (concat (map token (filter (\<lambda>t. lvalue t = STRING) ts)))), rest))
   \<and> (IsDomainName X (token d)
        \<and> (\<forall>t \<in> set ts. lvalue t = STRING \<longrightarrow> Str_rr X (ToUpper (token t)) \<noteq> None) \<longrightarrow>
      setNSEC X h (d # ts @ e # rest)
        = Some (Inr (RR_NSEC h (token d)
                       (map (\<lambda>t. the (Str_rr X (ToUpper (token t))))
                            (filter (\<lambda>t. lvalue t = STRING) ts))), rest))
   \<and> (Atoi (token n0) = Some hash \<and> Atoi (token n1) = Some flags
        \<and> Atoi (token n2) = Some iter
        \<and> (\<forall>t \<in> set ts. lvalue t = STRING \<longrightarrow> Str_rr X (ToUpper (token t)) \<noteq> None) \<longrightarrow>
      setNSEC3 X h (n0 # b0 # n1 # b1 # n2 # b2 # salt # b3 # nd # ts @ e # rest)
        = Some (Inr (RR_NSEC3 h (word_of_int hash) (word_of_int flags) (word_of_int iter)
                       (of_nat (length (token salt))) (token salt)
                       (of_nat (length (token nd))) (token nd)
                       (map (\<lambda>t. the (Str_rr X (ToUpper (token t))))
                            (filter (\<lambda>t. lvalue t = STRING) ts))), rest))"
proof (intro conjI impI)
  assume tail: "\<forall>t \<in> set ts. lvalue t = STRING \<or> lvalue t = BLANK" and e: "lvalue e = EOF"
  from e have fin: "lvalue e = NEWLINE \<or> lvalue e = EOF" by simp
  show "setTXT h (ts @ e # rest) = Some (Inr (RR_TXT h (concat (map token ts))), rest)"
    using txt_loop_tail [OF tail fin, of "[]" rest] by (simp add: setTXT_def)
  {
    assume "Str_rr X (ToUpper (token t0)) = Some tc \<and> Atoi (token t1) = Some alg
        \<and> Atoi (token t2) = Some lab \<and> Atoi (token t3) = Some ottl
        \<and> dateToTime X (token t4) = Some exp \<and> dateToTime X (token t5) = Some inc
        \<and> Atoi (token t6) = Some tag \<and> IsDomainName X (token t7)"
    then show "setRRSIG X h
          (t0 # s0 # t1 # s1 # t2 # s2 # t3 # s3 # t4 # s4 # t5 # s5 # t6 # s6 # t7
             # ts @ e # rest)
        = Some (Inr (RR_RRSIG h tc (word_of_int alg) (word_of_int lab) (word_of_int ottl)
                       exp inc (word_of_int tag) (token t7)
                       (concat (map token (filter (\<lambda>t. lvalue t = STRING) ts)))), rest)"
      using rrsig_loop_tail [OF tail fin, of "[]" rest] by (simp add: setRRSIG_leading)
  }
  {
    assume "IsDomainName X (token d)
        \<and> (\<forall>t \<in> set ts. lvalue t = STRING \<longrightarrow> Str_rr X (ToUpper (token t)) \<noteq> None)"
    then show "setNSEC X h (d # ts @ e # rest)
        = Some (Inr (RR_NSEC h (token d)
                       (map (\<lambda>t. the (Str_rr X (ToUpper (token t))))
                            (filter (\<lambda>t. lvalue t = STRING) ts))), rest)"
      using nsec_loop_tail [OF tail _ fin, of X "[]" rest] by (simp add: setNSEC_leading)
  }
  {
    assume "Atoi (token n0) = Some hash \<and> Atoi (token n1) = Some flags
        \<and> Atoi (token n2) = Some iter
        \<and> (\<forall>t \<in> set ts. lvalue t = STRING \<longrightarrow> Str_rr X (ToUpper (token t)) \<noteq> None)"
    then show "setNSEC3 X h (n0 # b0 # n1 # b1 # n2 # b2 # salt # b3 # nd # ts @ e # rest)
        = Some (Inr (RR_NSEC3 h (word_of_int hash) (word_of_int flags) (word_of_int iter)
                       (of_nat (length (token salt))) (token salt)
                       (of_nat (length (token nd))) (token nd)
                       (map (\<lambda>t. the (Str_rr X (ToUpper (token t))))
                            (filter (\<lambda>t. lvalue t = STRING) ts))), rest)"
      using nsec3_loop_tail [OF tail _ fin, of X "[]" rest] by (simp add: setNSEC3_leading)
  }
qed

theorem variable_tail_ends_on_EOF_witness:
  "setTXT (hdr TypeTXT) ([str ''abc'', blank, str ''def''] @ eof # [str ''next''])
     = Some (Inr (RR_TXT (hdr TypeTXT) (concat (map token [str ''abc'', blank, str ''def'']))),
             [str ''next''])
   \<and> setRRSIG sample_collab (hdr TypeRRSIG)
        (str ''a'' # blank # str ''5'' # blank # str ''2'' # blank # str ''3600'' # blank
           # str ''20110101000000'' # blank # str ''20100101000000'' # blank # str ''12345''
           # blank # str ''example.org.'' # [blank, str ''abc'', blank, str ''def''] @ eof # [])
       = Some (Inr (RR_RRSIG (hdr TypeRRSIG) 1 5 2 3600 20110101000000 20100101000000 12345
                      ''example.org.'' ''abcdef''), [])
   \<and> setNSEC sample_collab (hdr TypeNSEC)
        (str ''example.org.'' # [blank, str ''a'', blank, str ''MX''] @ eof # [])
       = Some (Inr (RR_NSEC (hdr TypeNSEC) ''example.org.'' [1, 15]), [])
   \<and> setNSEC3 sample_collab (hdr TypeNSEC3)
        (str ''1'' # blank # str ''0'' # blank # str ''10'' # blank # str ''abcd'' # blank
           # str ''example.org.'' # [] @ eof # [])
       = Some (Inr (RR_NSEC3 (hdr TypeNSEC3) 1 0 10 4 ''abcd'' 12 ''example.org.'' []), [])"
proof -
  have e: "lvalue eof = EOF" by (simp add: eof_def)
  have t1: "\<forall>t \<in> set [str ''abc'', blank, str ''def'']. lvalue t = STRING \<or> lvalue t = BLANK"
    by (simp add: str_def blank_def)
  have t2: "\<forall>t \<in> set [blank, str ''abc'', blank, str ''def'']. lvalue t = STRING \<or> lvalue t = BLANK"
    by (simp add: str_def blank_def)
  have t3: "\<forall>t \<in> set [blank, str ''a'', blank, str ''MX'']. lvalue t = STRING \<or> lvalue t = BLANK"
    by (simp add: str_def blank_def)
  have t4: "\<forall>t \<in> set ([] :: Lex list). lvalue t = STRING \<or> lvalue t = BLANK"
    by simp
  have 1: "setTXT (hdr TypeTXT) ([str ''abc'', blank, str ''def''] @ eof # [str ''next''])
     = Some (Inr (RR_TXT (hdr TypeTXT) (concat (map token [str ''abc'', blank, str ''def'']))),
             [str ''next''])"
    using variable_tail_ends_on_EOF [OF t1 e, THEN conjunct1] .
  have 2: "setRRSIG sample_collab (hdr TypeRRSIG)
        (str ''a'' # blank # str ''5'' # blank # str ''2'' # blank # str ''3600'' # blank
           # str ''20110101000000'' # blank # str ''20100101000000'' # blank # str ''12345''
           # blank # str ''example.org.'' # [blank, str ''abc'', blank, str ''def''] @ eof # [])
       = Some (Inr (RR_RRSIG (hdr TypeRRSIG) 1 5 2 3600 20110101000000 20100101000000 12345
                      ''example.org.'' ''abcdef''), [])"
    using variable_tail_ends_on_EOF [OF t2 e, THEN conjunct2, THEN conjunct1,
        of sample_collab "str ''a''" 1 "str ''5''" 5 "str ''2''" 2 "str ''3600''" 3600
           "str ''20110101000000''" 20110101000000 "str ''20100101000000''" 20100101000000
           "str ''12345''" 12345 "str ''example.org.''" "hdr TypeRRSIG"
           blank blank blank blank blank blank blank "[]"]
    by (simp add: str_def blank_def sample_lookup sample_domain sample_date sample_Atoi)
  have 3: "setNSEC sample_collab (hdr TypeNSEC)
        (str ''example.org.'' # [blank, str ''a'', blank, str ''MX''] @ eof # [])
       = Some (Inr (RR_NSEC (hdr TypeNSEC) ''example.org.'' [1, 15]), [])"
    using variable_tail_ends_on_EOF [OF t3 e, THEN conjunct2, THEN conjunct2, THEN conjunct1,
        of sample_collab "str ''example.org.''" "hdr TypeNSEC" "[]"]
    by (simp add: str_def blank_def sample_lookup sample_domain)
  have 4: "setNSEC3 sample_collab (hdr TypeNSEC3)
        (str ''1'' # blank # str ''0'' # blank # str ''10'' # blank # str ''abcd'' # blank
           # str ''example.org.'' # [] @ eof # [])
       = Some (Inr (RR_NSEC3 (hdr TypeNSEC3) 1 0 10 4 ''abcd'' 12 ''example.org.'' []), [])"
    using variable_tail_ends_on_EOF [OF t4 e, THEN conjunct2, THEN conjunct2, THEN conjunct2,
        of "str ''1''" 1 "str ''0''" 0 "str ''10''" 10 sample_collab "hdr TypeNSEC3"
           blank blank blank "str ''abcd''" blank "str ''example.org.''" "[]"]
    by (simp add: str_def sample_Atoi)
  from 1 2 3 4 show ?thesis by (intro conjI)
qed

text \<open>
  C6 as stated fails for the bitmap grammars: a STRING token of the tail that is not a
  mnemonic of the table ends the NSEC grammar with an error before the EOF is reached.
\<close>

theorem variable_tail_counterexample:
  "lvalue (str ''bogus'') = STRING \<and> lvalue eof = EOF
   \<and> IsDomainName sample_collab (token (str ''example.org.''))
   \<and> setNSEC sample_collab (hdr TypeNSEC) [str ''example.org.'', str ''bogus'', eof]
       = Some (Inl (ParseError ''bad NSEC non RR in type bitmap'' (str ''bogus'')), [eof])"
  by (simp add: setNSEC_def str_def eof_def sample_lookup sample_domain)

section \<open>Accumulated text and signature\<close>

text \<open>
  C7. On the tail STRING "abc", BLANK \<open>b\<close>, STRING "def", NEWLINE the TXT grammar
  returns the text "abc" followed by the payload of \<open>b\<close> and "def"; after valid
  leading fields the RRSIG grammar returns the signature "abcdef" on the same tail.
\<close>

theorem txt_keeps_blanks_rrsig_drops_them:
  "lvalue b = BLANK \<Longrightarrow> lvalue nl = NEWLINE \<Longrightarrow>
   setTXT h [str ''abc'', b, str ''def'', nl]
     = Some (Inr (RR_TXT h (''abc'' @ token b @ ''def'')), [])
   \<and> (Str_rr X (ToUpper (token t0)) = Some tc \<and> Atoi (token t1) = Some alg
        \<and> Atoi (token t2) = Some lab \<and> Atoi (token t3) = Some ottl
        \<and> dateToTime X (token t4) = Some exp \<and> dateToTime X (token t5) = Some inc
        \<and> Atoi (token t6) = Some tag \<and> IsDomainName X (token t7) \<longrightarrow>
      setRRSIG X h
          (t0 # s0 # t1 # s1 # t2 # s2 # t3 # s3 # t4 # s4 # t5 # s5 # t6 # s6 # t7
             # [str ''abc'', b, str ''def'', nl])
        = Some (Inr (RR_RRSIG h tc (word_of_int alg) (word_of_int lab) (word_of_int ottl)
                       exp inc (word_of_int tag) (token t7) ''abcdef''), []))"
  by (simp add: setTXT_def setRRSIG_leading str_def)

theorem txt_keeps_blanks_rrsig_drops_them_witness:
  "setTXT (hdr TypeTXT) [str ''abc'', blank, str ''def'', newline]
     = Some (Inr (RR_TXT (hdr TypeTXT) ''abc def''), [])
   \<and> setRRSIG sample_collab (hdr TypeRRSIG)
        [str ''a'', blank, str ''5'', blank, str ''2'', blank, str ''3600'', blank,
         str ''20110101000000'', blank, str ''20100101000000'', blank, str ''12345'',
         blank, str ''example.org.'', str ''abc'', blank, str ''def'', newline]
       = Some (Inr (RR_RRSIG (hdr TypeRRSIG) 1 5 2 3600 20110101000000 20100101000000 12345
                      ''example.org.'' ''abcdef''), [])"
proof -
  have b: "lvalue blank = BLANK" and n: "lvalue newline = NEWLINE"
    by (simp_all add: blank_def newline_def)
  have 1: "setTXT (hdr TypeTXT) [str ''abc'', blank, str ''def'', newline]
     = Some (Inr (RR_TXT (hdr TypeTXT) ''abc def''), [])"
    using txt_keeps_blanks_rrsig_drops_them [OF b n, THEN conjunct1, of "hdr TypeTXT"]
    by (simp add: blank_def)
  have 2: "setRRSIG sample_collab (hdr TypeRRSIG)
        [str ''a'', blank, str ''5'', blank, str ''2'', blank, str ''3600'', blank,
         str ''20110101000000'', blank, str ''20100101000000'', blank, str ''12345'',
         blank, str ''example.org.'', str ''abc'', blank, str ''def'', newline]
       = Some (Inr (RR_RRSIG (hdr TypeRRSIG) 1 5 2 3600 20110101000000 20100101000000 12345
                      ''example.org.'' ''abcdef''), [])"
    using txt_keeps_blanks_rrsig_drops_them [
        where X = sample_collab and h = "hdr TypeRRSIG"
          and ?t0.0 = "str ''a''" and tc = 1 and ?t1.0 = "str ''5''" and alg = 5
          and ?t2.0 = "str ''2''" and lab = 2 and ?t3.0 = "str ''3600''" and ottl = 3600
          and ?t4.0 = "str ''20110101000000''" and exp = 20110101000000
          and ?t5.0 = "str ''20100101000000''" and inc = 20100101000000
          and ?t6.0 = "str ''12345''" and tag = 12345 and ?t7.0 = "str ''example.org.''"
          and ?s0.0 = blank and ?s1.0 = blank and ?s2.0 = blank and ?s3.0 = blank
          and ?s4.0 = blank and ?s5.0 = blank and ?s6.0 = blank,
        OF b n, THEN conjunct2]
    by (simp add: str_def sample_lookup sample_domain sample_date sample_Atoi)
  from 1 2 show ?thesis ..
qed

section \<open>The type bitmap\<close>

text \<open>
  C9. When every STRING token of the tail is a mnemonic of the table, the type bitmap
  of the NSEC and of the NSEC3 record is the list of the codes of the STRING tokens of
  the tail, one for each token, in the order of the tokens: nothing is sorted and no
  duplicate is dropped.
\<close>

theorem bitmap_keeps_encounter_order:
  "(\<forall>t \<in> set ts. lvalue t = STRING \<or> lvalue t = BLANK) \<Longrightarrow>
   (\<forall>t \<in> set ts. lvalue t = STRING \<longrightarrow> Str_rr X (ToUpper (token t)) \<noteq> None) \<Longrightarrow>
   lvalue e = NEWLINE \<or> lvalue e = EOF \<Longrightarrow>
   (IsDomainName X (token d) \<longrightarrow>
      (\<exists>r. setNSEC X h (d # ts @ e # rest) = Some (Inr r, rest)
         \<and> TypeBitMap r = map (\<lambda>t. the (Str_rr X (ToUpper (token t))))
                               (filter (\<lambda>t. lvalue t = STRING) ts)))
   \<and> (Atoi (token n0) = Some hash \<and> Atoi (token n1) = Some flags
        \<and> Atoi (token n2) = Some iter \<longrightarrow>
      (\<exists>r. setNSEC3 X h (n0 # b0 # n1 # b1 # n2 # b2 # salt # b3 # nd # ts @ e # rest)
              = Some (Inr r, rest)
         \<and> TypeBitMap r = map (\<lambda>t. the (Str_rr X (ToUpper (token t))))
                               (filter (\<lambda>t. lvalue t = STRING) ts)))"
proof (intro conjI impI)
  assume tail: "\<forall>t \<in> set ts. lvalue t = STRING \<or> lvalue t = BLANK"
    and res: "\<forall>t \<in> set ts. lvalue t = STRING \<longrightarrow> Str_rr X (ToUpper (token t)) \<noteq> None"
    and fin: "lvalue e = NEWLINE \<or> lvalue e = EOF"
  {
    assume "IsDomainName X (token d)"
    then show "\<exists>r. setNSEC X h (d # ts @ e # rest) = Some (Inr r, rest)
         \<and> TypeBitMap r = map (\<lambda>t. the (Str_rr X (ToUpper (token t))))
                               (filter (\<lambda>t. lvalue t = STRING) ts)"
      using nsec_loop_tail [OF tail res fin, of "[]" rest] by (simp add: setNSEC_leading)
  }
  {
    assume "Atoi (token n0) = Some hash \<and> Atoi (token n1) = Some flags
        \<and> Atoi (token n2) = Some iter"
    then show "\<exists>r. setNSEC3 X h (n0 # b0 # n1 # b1 # n2 # b2 # salt # b3 # nd # ts @ e # rest)
              = Some (Inr r, rest)
         \<and> TypeBitMap r = map (\<lambda>t. the (Str_rr X (ToUpper (token t))))
                               (filter (\<lambda>t. lvalue t = STRING) ts)"
      using nsec3_loop_tail [OF tail res fin, of "[]" rest] by (simp add: setNSEC3_leading)
  }
qed

theorem bitmap_keeps_encounter_order_witness:
  "(\<exists>r. setNSEC sample_collab (hdr TypeNSEC)
           (str ''example.org.'' # [blank, str ''A'', blank, str ''MX''] @ newline # [])
          = Some (Inr r, [])
      \<and> TypeBitMap r = [1, 15])
   \<and> (\<exists>r. setNSEC3 sample_collab (hdr TypeNSEC3)
           (str ''1'' # blank # str ''0'' # blank # str ''10'' # blank # str ''abcd'' # blank
              # str ''example.org.'' # [blank, str ''MX'', blank, str ''A'', blank, str ''mx'']
              @ eof # [])
          = Some (Inr r, [])
      \<and> TypeBitMap r = [15, 1, 15])"
proof -
  have n: "lvalue newline = NEWLINE \<or> lvalue newline = EOF"
    and e: "lvalue eof = NEWLINE \<or> lvalue eof = EOF"
    by (simp_all add: newline_def eof_def)
  have t1: "\<forall>t \<in> set [blank, str ''A'', blank, str ''MX'']. lvalue t = STRING \<or> lvalue t = BLANK"
    by (simp add: str_def blank_def)
  have r1: "\<forall>t \<in> set [blank, str ''A'', blank, str ''MX''].
              lvalue t = STRING \<longrightarrow> Str_rr sample_collab (ToUpper (token t)) \<noteq> None"
    by (simp add: str_def blank_def sample_lookup)
  have t2: "\<forall>t \<in> set [blank, str ''MX'', blank, str ''A'', blank, str ''mx''].
              lvalue t = STRING \<or> lvalue t = BLANK"
    by (simp add: str_def blank_def)
  have r2: "\<forall>t \<in> set [blank, str ''MX'', blank, str ''A'', blank, str ''mx''].
              lvalue t = STRING \<longrightarrow> Str_rr sample_collab (ToUpper (token t)) \<noteq> None"
    by (simp add: str_def blank_def sample_lookup)
  have 1: "\<exists>r. setNSEC sample_collab (hdr TypeNSEC)
           (str ''example.org.'' # [blank, str ''A'', blank, str ''MX''] @ newline # [])
          = Some (Inr r, [])
      \<and> TypeBitMap r = [1, 15]"
    using bitmap_keeps_encounter_order [OF t1 r1 n, THEN conjunct1,
        of "str ''example.org.''" "hdr TypeNSEC" "[]"]
    by (simp add: str_def blank_def sample_lookup sample_domain)
  have 2: "\<exists>r. setNSEC3 sample_collab (hdr TypeNSEC3)
           (str ''1'' # blank # str ''0'' # blank # str ''10'' # blank # str ''abcd'' # blank
              # str ''example.org.'' # [blank, str ''MX'', blank, str ''A'', blank, str ''mx'']
              @ eof # [])
          = Some (Inr r, [])
      \<and> TypeBitMap r = [15, 1, 15]"
    using bitmap_keeps_encounter_order [OF t2 r2 e, THEN conjunct2,
        of "str ''1''" 1 "str ''0''" 0 "str ''10''" 10 "hdr TypeNSEC3"
           blank blank blank "str ''abcd''" blank "str ''example.org.''" "[]"]
    by (simp add: str_def blank_def sample_lookup sample_Atoi)
  from 1 2 show ?thesis ..
qed

section \<open>Separator positions\<close>

lemma setMX_separator:
  "map_option fst (setMX X h (c[1 := s])) = map_option fst (setMX X h c)"
proof (cases "1 < length c")
  case True
  then show ?thesis
    by (auto simp: numeral_eq_Suc Suc_lt_length neq_Nil_conv setMX_def split: option.splits)
next
  case False
  then show ?thesis by (simp add: list_update_beyond)
qed

lemma setNSEC3_separator:
  "k \<in> {1, 3, 5, 7} \<Longrightarrow> map_option fst (setNSEC3 X h (c[k := s])) = map_option fst (setNSEC3 X h c)"
proof (cases "k < length c")
  case True
  assume "k \<in> {1, 3, 5, 7}"
  with True show ?thesis
    by (auto simp: numeral_eq_Suc Suc_lt_length neq_Nil_conv setNSEC3_def split: option.splits)
next
  case False
  then show ?thesis by (simp add: list_update_beyond)
qed

lemma setRRSIG_separator:
  "k \<in> {1, 3, 5, 7, 9, 11, 13} \<Longrightarrow> map_option fst (setRRSIG X h (c[k := s])) = map_option fst (setRRSIG X h c)"
proof (cases "k < length c")
  case True
  assume "k \<in> {1, 3, 5, 7, 9, 11, 13}"
  with True show ?thesis
    by (auto simp: numeral_eq_Suc Suc_lt_length neq_Nil_conv setRRSIG_def split: option.splits)
next
  case False
  then show ?thesis by (simp add: list_update_beyond)
qed


lemma setSOA_separator:
  "k \<in> {1, 3, 5, 7, 9, 11, 13} \<Longrightarrow>
   map_option fst (setSOA X h (c[k := s])) = map_option fst (setSOA X h c)"
proof (cases "k < length c")
  case True
  assume "k \<in> {1, 3, 5, 7, 9, 11, 13}"
  with True show ?thesis
    by (auto simp: numeral_eq_Suc Suc_lt_length neq_Nil_conv setSOA_def soa_loop_cons
        split: option.splits)
next
  case False
  then show ?thesis by (simp add: list_update_beyond)
qed

text \<open>
  C10. The token at a separator position is received and dropped: replacing it by any
  other token \<open>s\<close>, of whatever tag and text, leaves the value that the grammar returns
  (the record or the error) as it was. The positions, counted from the first token of
  the rdata, are 1 for MX, the odd ones up to 13 for SOA (the last of them follows the
  minimum TTL) and for RRSIG, and 1, 3, 5, 7 for NSEC3. With valid fields, MX and SOA
  return the record whatever the separators are, and leave what follows the last token
  they have read. With valid leading fields, RRSIG and NSEC3 reach their scan loop
  exactly at the token that follows the last leading field, whatever the separators
  are: each separator position takes one token, no more and no less.
\<close>

theorem separators_are_not_inspected:
  "map_option fst (setMX X h (c[1 := s])) = map_option fst (setMX X h c)
   \<and> (k \<in> {1, 3, 5, 7, 9, 11, 13} \<longrightarrow>
        map_option fst (setSOA X h (c[k := s])) = map_option fst (setSOA X h c))
   \<and> (k \<in> {1, 3, 5, 7, 9, 11, 13} \<longrightarrow>
        map_option fst (setRRSIG X h (c[k := s])) = map_option fst (setRRSIG X h c))
   \<and> (k \<in> {1, 3, 5, 7} \<longrightarrow>
        map_option fst (setNSEC3 X h (c[k := s])) = map_option fst (setNSEC3 X h c))
   \<and> (Atoi (token p) = Some i \<and> IsDomainName X (token n) \<longrightarrow>
        setMX X h (p # s1 # n # rest) = Some (Inr (RR_MX h (word_of_int i) (token n)), rest))
   \<and> (IsDomainName X (token ns) \<and> IsDomainName X (token mb)
        \<and> Atoi (token n1) = Some i1 \<and> Atoi (token n2) = Some i2 \<and> Atoi (token n3) = Some i3
        \<and> Atoi (token n4) = Some i4 \<and> Atoi (token n5) = Some i5 \<longrightarrow>
        setSOA X h
            (ns # s1 # mb # s2 # n1 # s3 # n2 # s4 # n3 # s5 # n4 # s6 # n5 # s7 # rest)
          = Some (Inr (RR_SOA h (token ns) (token mb) (word_of_int i1) (word_of_int i2)
                         (word_of_int i3) (word_of_int i4) (word_of_int i5)), rest))
   \<and> (Str_rr X (ToUpper (token t0)) = Some tc \<and> Atoi (token t1) = Some alg
        \<and> Atoi (token t2) = Some lab \<and> Atoi (token t3) = Some ottl
        \<and> dateToTime X (token t4) = Some exp \<and> dateToTime X (token t5) = Some inc
        \<and> Atoi (token t6) = Some tag \<and> IsDomainName X (token t7) \<longrightarrow>
        setRRSIG X h
            (t0 # q0 # t1 # q1 # t2 # q2 # t3 # q3 # t4 # q4 # t5 # q5 # t6 # q6 # t7 # rest)
          = (case rrsig_loop [] rest of
               None \<Rightarrow> None
             | Some (Inl e, c') \<Rightarrow> Some (Inl e, c')
             | Some (Inr sg, c') \<Rightarrow>
                 Some (Inr (RR_RRSIG h tc (word_of_int alg) (word_of_int lab)
                              (word_of_int ottl) exp inc (word_of_int tag) (token t7) sg),
                       c')))
   \<and> (Atoi (token m0) = Some hash \<and> Atoi (token m1) = Some flags
        \<and> Atoi (token m2) = Some iter \<longrightarrow>
        setNSEC3 X h (m0 # b0 # m1 # b1 # m2 # b2 # salt # b3 # nd # rest)
          = (case nsec3_loop X [] rest of
               None \<Rightarrow> None
             | Some (Inl e, c') \<Rightarrow> Some (Inl e, c')
             | Some (Inr bm, c') \<Rightarrow>
                 Some (Inr (RR_NSEC3 h (word_of_int hash) (word_of_int flags)
                              (word_of_int iter) (of_nat (length (token salt))) (token salt)
                              (of_nat (length (token nd))) (token nd) bm), c')))"
proof -
  have inv: "map_option fst (setMX X h (c[1 := s])) = map_option fst (setMX X h c)
   \<and> (k \<in> {1, 3, 5, 7, 9, 11, 13} \<longrightarrow>
        map_option fst (setSOA X h (c[k := s])) = map_option fst (setSOA X h c))
   \<and> (k \<in> {1, 3, 5, 7, 9, 11, 13} \<longrightarrow>
        map_option fst (setRRSIG X h (c[k := s])) = map_option fst (setRRSIG X h c))
   \<and> (k \<in> {1, 3, 5, 7} \<longrightarrow>
        map_option fst (setNSEC3 X h (c[k := s])) = map_option fst (setNSEC3 X h c))"
    using setMX_separator [of X h c s] setSOA_separator [of k X h c s]
      setRRSIG_separator [of k X h c s] setNSEC3_separator [of k X h c s]
    by blast
  have mx: "Atoi (token p) = Some i \<and> IsDomainName X (token n) \<longrightarrow>
        setMX X h (p # s1 # n # rest) = Some (Inr (RR_MX h (word_of_int i) (token n)), rest)"
    by (simp add: setMX_fields)
  have soa: "IsDomainName X (token ns) \<and> IsDomainName X (token mb)
        \<and> Atoi (token n1) = Some i1 \<and> Atoi (token n2) = Some i2 \<and> Atoi (token n3) = Some i3
        \<and> Atoi (token n4) = Some i4 \<and> Atoi (token n5) = Some i5 \<longrightarrow>
        setSOA X h
            (ns # s1 # mb # s2 # n1 # s3 # n2 # s4 # n3 # s5 # n4 # s6 # n5 # s7 # rest)
          = Some (Inr (RR_SOA h (token ns) (token mb) (word_of_int i1) (word_of_int i2)
                         (word_of_int i3) (word_of_int i4) (word_of_int i5)), rest)"
    by (simp add: setSOA_fields)
  have sig: "Str_rr X (ToUpper (token t0)) = Some tc \<and> Atoi (token t1) = Some alg
        \<and> Atoi (token t2) = Some lab \<and> Atoi (token t3) = Some ottl
        \<and> dateToTime X (token t4) = Some exp \<and> dateToTime X (token t5) = Some inc
        \<and> Atoi (token t6) = Some tag \<and> IsDomainName X (token t7) \<longrightarrow>
        setRRSIG X h
            (t0 # q0 # t1 # q1 # t2 # q2 # t3 # q3 # t4 # q4 # t5 # q5 # t6 # q6 # t7 # rest)
          = (case rrsig_loop [] rest of
               None \<Rightarrow> None
             | Some (Inl e, c') \<Rightarrow> Some (Inl e, c')
             | Some (Inr sg, c') \<Rightarrow>
                 Some (Inr (RR_RRSIG h tc (word_of_int alg) (word_of_int lab)
                              (word_of_int ottl) exp inc (word_of_int tag) (token t7) sg),
                       c'))"
    by (simp add: setRRSIG_leading)
  have n3: "Atoi (token m0) = Some hash \<and> Atoi (token m1) = Some flags
        \<and> Atoi (token m2) = Some iter \<longrightarrow>
        setNSEC3 X h (m0 # b0 # m1 # b1 # m2 # b2 # salt # b3 # nd # rest)
          = (case nsec3_loop X [] rest of
               None \<Rightarrow> None
             | Some (Inl e, c') \<Rightarrow> Some (Inl e, c')
             | Some (Inr bm, c') \<Rightarrow>
                 Some (Inr (RR_NSEC3 h (word_of_int hash) (word_of_int flags)
                              (word_of_int iter) (of_nat (length (token salt))) (token salt)
                              (of_nat (length (token nd))) (token nd) bm), c'))"
    by (simp add: setNSEC3_leading)
  from inv mx soa sig n3 show ?thesis by (intro conjI) blast+
qed

lemma run_MX_blank:
  "setMX sample_collab (hdr TypeMX) [str ''10'', blank, str ''mx.example.org.'', newline]
     = Some (Inr (RR_MX (hdr TypeMX) 10 ''mx.example.org.''), [newline])"
  by (simp add: setMX_def run_simps)

theorem separators_are_not_inspected_witness:
  "map_option fst
     (setMX sample_collab (hdr TypeMX) [str ''10'', newline, str ''mx.example.org.'', newline])
     = Some (Inr (RR_MX (hdr TypeMX) 10 ''mx.example.org.''))
   \<and> map_option fst
        (setSOA sample_collab (hdr TypeSOA)
           [str ''ns.example.org.'', blank, str ''admin.example.org.'', blank,
            str ''4294967297'', blank, str ''7200'', blank, str ''3600'', blank,
            str ''1209600'', blank, str ''-1'', eof, newline])
       = Some (Inr (RR_SOA (hdr TypeSOA) ''ns.example.org.'' ''admin.example.org.''
                      1 7200 3600 1209600 4294967295))
   \<and> map_option fst
        (setRRSIG sample_collab (hdr TypeRRSIG)
           [str ''a'', str ''x'', str ''261'', blank, str ''2'', blank, str ''4294967296'',
            blank, str ''20110101000000'', blank, str ''20100101000000'', blank,
            str ''65537'', blank, str ''example.org.'', blank, str ''abc'', newline])
       = Some (Inr (RR_RRSIG (hdr TypeRRSIG) 1 5 2 0 20110101000000 20100101000000 1
                      ''example.org.'' ''abc''))
   \<and> map_option fst
        (setNSEC3 sample_collab (hdr TypeNSEC3)
           [str ''-1'', blank, str ''256'', blank, str ''65536'', blank, str ''abcd'',
            newline, str ''hash'', newline])
       = Some (Inr (RR_NSEC3 (hdr TypeNSEC3) 255 0 0 4 ''abcd'' 4 ''hash'' []))
   \<and> setMX sample_collab (hdr TypeMX) [str ''10'', eof, str ''mx.example.org.'', newline]
       = Some (Inr (RR_MX (hdr TypeMX) (word_of_int 10) ''mx.example.org.''), [newline])
   \<and> setRRSIG sample_collab (hdr TypeRRSIG)
        [str ''a'', eof, str ''261'', newline, str ''2'', str ''x'', str ''4294967296'', blank,
         str ''20110101000000'', newline, str ''20100101000000'', eof, str ''65537'', blank,
         str ''example.org.'', blank, str ''abc'', newline, str ''next'']
       = Some (Inr (RR_RRSIG (hdr TypeRRSIG) 1 5 2 0 20110101000000 20100101000000 1
                      ''example.org.'' ''abc''), [str ''next''])
   \<and> setNSEC3 sample_collab (hdr TypeNSEC3)
        [str ''-1'', newline, str ''256'', eof, str ''65536'', str ''x'', str ''abcd'',
         newline, str ''hash'', blank, str ''MX'', eof, str ''next'']
       = Some (Inr (RR_NSEC3 (hdr TypeNSEC3) 255 0 0 4 ''abcd'' 4 ''hash'' [15]),
               [str ''next''])"
proof -
  have 1: "map_option fst
     (setMX sample_collab (hdr TypeMX) [str ''10'', newline, str ''mx.example.org.'', newline])
     = Some (Inr (RR_MX (hdr TypeMX) 10 ''mx.example.org.''))"
    using separators_are_not_inspected
      [where X = sample_collab and h = "hdr TypeMX" and s = newline
         and c = "[str ''10'', blank, str ''mx.example.org.'', newline]", THEN conjunct1]
    by (simp add: run_MX_blank)
  have 2: "map_option fst
        (setSOA sample_collab (hdr TypeSOA)
           [str ''ns.example.org.'', blank, str ''admin.example.org.'', blank,
            str ''4294967297'', blank, str ''7200'', blank, str ''3600'', blank,
            str ''1209600'', blank, str ''-1'', eof, newline])
       = Some (Inr (RR_SOA (hdr TypeSOA) ''ns.example.org.'' ''admin.example.org.''
                      1 7200 3600 1209600 4294967295))"
    using separators_are_not_inspected
      [where X = sample_collab and h = "hdr TypeSOA" and s = eof and k = 13
         and c = "[str ''ns.example.org.'', blank, str ''admin.example.org.'', blank,
                   str ''4294967297'', blank, str ''7200'', blank, str ''3600'', blank,
                   str ''1209600'', blank, str ''-1'', blank, newline]",
         THEN conjunct2, THEN conjunct1]
    by (simp add: run_SOA_blank_newline)
  have 3: "map_option fst
        (setRRSIG sample_collab (hdr TypeRRSIG)
           [str ''a'', str ''x'', str ''261'', blank, str ''2'', blank, str ''4294967296'',
            blank, str ''20110101000000'', blank, str ''20100101000000'', blank,
            str ''65537'', blank, str ''example.org.'', blank, str ''abc'', newline])
       = Some (Inr (RR_RRSIG (hdr TypeRRSIG) 1 5 2 0 20110101000000 20100101000000 1
                      ''example.org.'' ''abc''))"
    using separators_are_not_inspected
      [where X = sample_collab and h = "hdr TypeRRSIG" and s = "str ''x''" and k = 1
         and c = "[str ''a'', blank, str ''261'', blank, str ''2'', blank, str ''4294967296'',
                   blank, str ''20110101000000'', blank, str ''20100101000000'', blank,
                   str ''65537'', blank, str ''example.org.'', blank, str ''abc'', newline]",
         THEN conjunct2, THEN conjunct2, THEN conjunct1]
    by (simp add: run_RRSIG_wrap)
  have 4: "map_option fst
        (setNSEC3 sample_collab (hdr TypeNSEC3)
           [str ''-1'', blank, str ''256'', blank, str ''65536'', blank, str ''abcd'',
            newline, str ''hash'', newline])
       = Some (Inr (RR_NSEC3 (hdr TypeNSEC3) 255 0 0 4 ''abcd'' 4 ''hash'' []))"
    using separators_are_not_inspected
      [where X = sample_collab and h = "hdr TypeNSEC3" and s = newline and k = 7
         and c = "[str ''-1'', blank, str ''256'', blank, str ''65536'', blank, str ''abcd'',
                   blank, str ''hash'', newline]",
         THEN conjunct2, THEN conjunct2, THEN conjunct2, THEN conjunct1]
    by (simp add: run_NSEC3_wrap)
  have 5: "setMX sample_collab (hdr TypeMX) [str ''10'', eof, str ''mx.example.org.'', newline]
       = Some (Inr (RR_MX (hdr TypeMX) (word_of_int 10) ''mx.example.org.''), [newline])"
    using separators_are_not_inspected
      [where X = sample_collab and h = "hdr TypeMX" and p = "str ''10''" and i = 10
         and n = "str ''mx.example.org.''" and ?s1.0 = eof and rest = "[newline]",
         THEN conjunct2, THEN conjunct2, THEN conjunct2, THEN conjunct2, THEN conjunct1]
    by (simp add: str_def sample_collab_def Atoi_def is_digit_def)
  have 6: "setRRSIG sample_collab (hdr TypeRRSIG)
        [str ''a'', eof, str ''261'', newline, str ''2'', str ''x'', str ''4294967296'', blank,
         str ''20110101000000'', newline, str ''20100101000000'', eof, str ''65537'', blank,
         str ''example.org.'', blank, str ''abc'', newline, str ''next'']
       = Some (Inr (RR_RRSIG (hdr TypeRRSIG) 1 5 2 0 20110101000000 20100101000000 1
                      ''example.org.'' ''abc''), [str ''next''])"
    using separators_are_not_inspected
      [where X = sample_collab and h = "hdr TypeRRSIG" and ?t0.0 = "str ''a''" and tc = 1
         and ?t1.0 = "str ''261''" and alg = 261 and ?t2.0 = "str ''2''" and lab = 2
         and ?t3.0 = "str ''4294967296''" and ottl = 4294967296
         and ?t4.0 = "str ''20110101000000''" and exp = 20110101000000
         and ?t5.0 = "str ''20100101000000''" and inc = 20100101000000
         and ?t6.0 = "str ''65537''" and tag = 65537 and ?t7.0 = "str ''example.org.''"
         and ?q0.0 = eof and ?q1.0 = newline and ?q2.0 = "str ''x''" and ?q3.0 = blank
         and ?q4.0 = newline and ?q5.0 = eof and ?q6.0 = blank
         and rest = "[blank, str ''abc'', newline, str ''next'']",
       THEN conjunct2, THEN conjunct2, THEN conjunct2, THEN conjunct2, THEN conjunct2, THEN conjunct2, THEN conjunct1]
      sample_lookup sample_domain sample_date
    by (simp add: str_def blank_def newline_def Atoi_def is_digit_def)
  have 7: "setNSEC3 sample_collab (hdr TypeNSEC3)
        [str ''-1'', newline, str ''256'', eof, str ''65536'', str ''x'', str ''abcd'',
         newline, str ''hash'', blank, str ''MX'', eof, str ''next'']
       = Some (Inr (RR_NSEC3 (hdr TypeNSEC3) 255 0 0 4 ''abcd'' 4 ''hash'' [15]),
               [str ''next''])"
    using separators_are_not_inspected
      [where X = sample_collab and h = "hdr TypeNSEC3" and ?m0.0 = "str ''-1''"
         and hash = "- 1" and ?m1.0 = "str ''256''" and flags = 256
         and ?m2.0 = "str ''65536''" and iter = 65536 and ?b0.0 = newline and ?b1.0 = eof
         and ?b2.0 = "str ''x''" and salt = "str ''abcd''" and ?b3.0 = newline
         and nd = "str ''hash''" and rest = "[blank, str ''MX'', eof, str ''next'']",
       THEN conjunct2, THEN conjunct2, THEN conjunct2, THEN conjunct2, THEN conjunct2, THEN conjunct2, THEN conjunct2]
      sample_lookup
    by (simp add: str_def blank_def eof_def Atoi_def is_digit_def)
  from 1 2 3 4 5 6 7 show ?thesis by (intro conjI)
qed

section \<open>Fixed-arity records followed by NEWLINE\<close>

lemma hdr_Rrtype: "Rrtype (hdr t) = t"
  by (simp add: hdr_def)

lemma setRR_SOA:
  "Rrtype h = TypeSOA \<Longrightarrow> setRR X h c = slurp_after (setSOA X h c)"
  by (simp add: setRR_def type_defs)

text \<open>
  After an SOA record with valid fields, the token that follows the minimum TTL is
  dropped as a separator, also when it is the NEWLINE; \<^verbatim>\<open>slurpRemainder\<close> then starts
  at the token after it.
\<close>

lemma setRR_SOA_newline:
  "Rrtype h = TypeSOA \<Longrightarrow> IsDomainName X (token ns) \<Longrightarrow> IsDomainName X (token mb) \<Longrightarrow>
   Atoi (token n1) = Some i1 \<Longrightarrow> Atoi (token n2) = Some i2 \<Longrightarrow> Atoi (token n3) = Some i3 \<Longrightarrow>
   Atoi (token n4) = Some i4 \<Longrightarrow> Atoi (token n5) = Some i5 \<Longrightarrow>
   setRR X h (ns # s1 # mb # s2 # n1 # s3 # n2 # s4 # n3 # s5 # n4 # s6 # n5 # nl # c)
     = (case slurpRemainder c of
          None \<Rightarrow> None
        | Some (Some se, c2) \<Rightarrow> Some (Inl se, c2)
        | Some (None, c2) \<Rightarrow>
            Some (Inr (RR_SOA h (token ns) (token mb) (word_of_int i1) (word_of_int i2)
                         (word_of_int i3) (word_of_int i4) (word_of_int i5)), c2))"
  by (simp add: setRR_SOA setSOA_fields slurp_after_def)

text \<open>
  The other fixed-arity types, followed by NEWLINE with no blank: the record is
  returned and the channel is left right after the NEWLINE.
\<close>

lemma setRR_one_field_newline:
  "lvalue nl = NEWLINE \<Longrightarrow>
   (Rrtype h = TypeA \<and> ParseIP (token l) = Some ip \<longrightarrow>
      setRR X h (l # nl # c) = Some (Inr (RR_A h ip), c))
   \<and> (Rrtype h = TypeAAAA \<and> ParseIP (token l) = Some ip \<longrightarrow>
      setRR X h (l # nl # c) = Some (Inr (RR_AAAA h ip), c))
   \<and> (Rrtype h = TypeNS \<and> IsDomainName X (token l) \<longrightarrow>
      setRR X h (l # nl # c) = Some (Inr (RR_NS h (token l)), c))
   \<and> (Rrtype h = TypeCNAME \<and> IsDomainName X (token l) \<longrightarrow>
      setRR X h (l # nl # c) = Some (Inr (RR_CNAME h (token l)), c))
   \<and> (Rrtype h = TypeMX \<and> Atoi (token l) = Some i \<and> IsDomainName X (token n) \<longrightarrow>
      setRR X h (l # b # n # nl # c) = Some (Inr (RR_MX h (word_of_int i) (token n)), c))"
  by (simp add: setRR_def type_defs slurp_after_def slurpRemainder_def setA_def setAAAA_def
      setNS_def setCNAME_def setMX_def)

text \<open>
  C8. The claim holds for A, AAAA, NS, CNAME and MX and fails for SOA. This is the run
  of \<^verbatim>\<open>setRR\<close> on a valid SOA record followed at once by NEWLINE: with a further
  token in the channel the result is the error "garbage after rdata" on that token,
  and with none the call waits for a token for ever.
\<close>

theorem setRR_SOA_newline_without_blank:
  "setRR sample_collab (hdr TypeSOA)
      [str ''ns.example.org.'', blank, str ''admin.example.org.'', blank, str ''1'', blank,
       str ''7200'', blank, str ''3600'', blank, str ''1209600'', blank, str ''3600'', newline,
       str ''next.example.org.'']
     = Some (Inl (ParseError ''garbage after rdata'' (str ''next.example.org.'')), [])
   \<and> setRR sample_collab (hdr TypeSOA)
      [str ''ns.example.org.'', blank, str ''admin.example.org.'', blank, str ''1'', blank,
       str ''7200'', blank, str ''3600'', blank, str ''1209600'', blank, str ''3600'', newline]
     = None"
  by (simp add: setRR_SOA hdr_Rrtype setSOA_def soa_loop_cons soa_loop_done slurp_after_def
      slurpRemainder_def run_simps)

end
